theory Spec2Isabelle
  imports Main "HOL-Library.Sublist"
begin

section \<open>OatBuild: the scanner, the token stream and the parser of \<^verbatim>\<open>oatbuild.py\<close>\<close>

text \<open>
  The theory embeds the front end of \<^verbatim>\<open>src/oatbuild.py\<close>: \<^verbatim>\<open>scan_file\<close>, the class
  \<^verbatim>\<open>TokenList\<close>, \<^verbatim>\<open>parse_tokens\<close> and the functions it calls. Mutable objects are passed
  and returned explicitly, the global \<^verbatim>\<open>hadError\<close> and the text written to standard error
  form a record of globals, and every exception the Python can raise on the way
  (\<^verbatim>\<open>IndexError\<close> from \<^verbatim>\<open>peek\<close>, \<^verbatim>\<open>TypeError\<close> from a call with a surplus argument) is a
  value of the type \<open>error\<close>.

  Text is a list of HOL characters: a character stands for the Unicode code point of its
  number, 0 to 255, so the texts of the model are those of code points below 256, decoded as
  Python's text mode delivers them. On these \<^verbatim>\<open>str.isalnum\<close> is modelled in full, the
  letters and numbers beyond ASCII included. Line numbers are natural numbers (they are
  \<^verbatim>\<open>index + 1\<close> of \<^verbatim>\<open>enumerate\<close>).
\<close>

subsection \<open>Tokens and the token list\<close>

datatype TokenType = STRING | LEFT_PAREN | RIGHT_PAREN | COMMA | LINE_END

record Token =
  tokenType :: TokenType
  lexeme :: string
  line :: nat

record TokenList =
  tokens :: "Token list"
  current :: nat

datatype error = IndexError | TypeError | AttributeError | OSError

definition TokenList_init :: TokenList where
  "TokenList_init = \<lparr>tokens = [], current = 0\<rparr>"

definition add :: "TokenList \<Rightarrow> TokenType \<Rightarrow> string \<Rightarrow> nat \<Rightarrow> TokenList" where
  "add tokenList ty lx ln = tokenList\<lparr>tokens := tokens tokenList @ [\<lparr>tokenType = ty, lexeme = lx, line = ln\<rparr>]\<rparr>"

text \<open>\<^verbatim>\<open>advance\<close> moves the cursor first, also at the end of the list, where it returns
  \<^verbatim>\<open>None\<close>.\<close>

definition advance :: "TokenList \<Rightarrow> Token option \<times> TokenList" where
  "advance tokenList =
     (let tokenList' = tokenList\<lparr>current := current tokenList + 1\<rparr>
      in if current tokenList' - 1 \<ge> length (tokens tokenList') then (None, tokenList')
         else (Some (tokens tokenList' ! (current tokenList' - 1)), tokenList'))"

text \<open>\<^verbatim>\<open>peek\<close> indexes the list without a check: at the end Python raises \<^verbatim>\<open>IndexError\<close>
  (the cursor is never negative).\<close>

definition peek :: "TokenList \<Rightarrow> error + Token" where
  "peek tokenList =
     (if current tokenList < length (tokens tokenList) then Inr (tokens tokenList ! current tokenList)
      else Inl IndexError)"

definition is_at_end :: "TokenList \<Rightarrow> bool" where
  "is_at_end tokenList = (current tokenList \<ge> length (tokens tokenList))"

function skip_line :: "TokenList \<Rightarrow> TokenList" where
  "skip_line tokenList =
     (case advance tokenList of
        (None, tokenList') \<Rightarrow> tokenList'
      | (Some cur, tokenList') \<Rightarrow> if tokenType cur \<noteq> LINE_END then skip_line tokenList' else tokenList')"
  by pat_completeness auto
termination
  by (relation "measure (\<lambda>tokenList. length (tokens tokenList) - current tokenList)")
     (auto simp: advance_def Let_def split: if_splits)

declare skip_line.simps [simp del]

subsection \<open>The scanner\<close>

text \<open>\<^verbatim>\<open>c.isalnum()\<close> for one character: Python takes a character for alphanumeric when
  it is a letter, a decimal, a digit or a numeric character of Unicode. Below 256 these are
  the ASCII digits and letters, the ordinal indicators (170, 186), the superscript digits
  (178, 179, 185), the micro sign (181), the fractions (188 to 190) and the letters from
  192 to 255 apart from the multiplication and the division sign (215, 247).\<close>

definition isalnum :: "char \<Rightarrow> bool" where
  "isalnum c =
     (let n = (of_char c :: nat)
      in (48 \<le> n \<and> n \<le> 57) \<or> (65 \<le> n \<and> n \<le> 90) \<or> (97 \<le> n \<and> n \<le> 122) \<or>
         n = 170 \<or> (178 \<le> n \<and> n \<le> 179) \<or> n = 181 \<or> (185 \<le> n \<and> n \<le> 186) \<or>
         (188 \<le> n \<and> n \<le> 190) \<or> (192 \<le> n \<and> n \<le> 214) \<or> (216 \<le> n \<and> n \<le> 246) \<or>
         (248 \<le> n \<and> n \<le> 255))"

definition is_valid_character :: "char \<Rightarrow> bool" where
  "is_valid_character c =
     (isalnum c \<or>
      c \<in> {CHR ''_'', CHR ''-'', CHR ''.'', CHR ''/'', CHR 0x5C, CHR '':'', CHR ''=''})"

text \<open>The inner loop of \<^verbatim>\<open>scan_file\<close>: it moves \<^verbatim>\<open>tokenEnd\<close> over valid characters.\<close>

function scan_run :: "string \<Rightarrow> nat \<Rightarrow> nat" where
  "scan_run ln tokenEnd =
     (if tokenEnd < length ln \<and> is_valid_character (ln ! tokenEnd)
      then scan_run ln (tokenEnd + 1) else tokenEnd)"
  by pat_completeness auto
termination
  by (relation "measure (\<lambda>(ln, tokenEnd). length ln - tokenEnd)") auto

declare scan_run.simps [simp del]

text \<open>The slice \<^verbatim>\<open>line[tokenStart:tokenEnd]\<close>; Python clips it to the string, and it is
  empty when \<^verbatim>\<open>tokenEnd <= tokenStart\<close>.\<close>

definition slice :: "string \<Rightarrow> nat \<Rightarrow> nat \<Rightarrow> string" where
  "slice ln i j = take (j - i) (drop i ln)"

text \<open>The loop \<^verbatim>\<open>while tokenStart < len(line)\<close> over one line; \<open>index\<close> is the index
  \<^verbatim>\<open>enumerate\<close> gives the line.\<close>

function scan_loop :: "string \<Rightarrow> nat \<Rightarrow> nat \<Rightarrow> nat \<Rightarrow> TokenList \<Rightarrow> TokenList" where
  "scan_loop ln index tokenStart tokenEnd tokenList =
     (if tokenStart < length ln then
        (let c = ln ! tokenStart in
         if c = CHR ''('' then
           scan_loop ln index tokenEnd (tokenEnd + 1) (add tokenList LEFT_PAREN ''('' (index + 1))
         else if c = CHR '')'' then
           scan_loop ln index tokenEnd (tokenEnd + 1) (add tokenList RIGHT_PAREN '')'' (index + 1))
         else if c = CHR '','' then
           scan_loop ln index tokenEnd (tokenEnd + 1) (add tokenList COMMA '','' (index + 1))
         else if c = CHR 0x0A then
           scan_loop ln index tokenEnd (tokenEnd + 1)
             (add tokenList LINE_END [CHR 0x5C, CHR ''n''] (index + 1))
         else if c \<in> {CHR '' '', CHR 0x09, CHR 0x00} then
           scan_loop ln index tokenEnd (tokenEnd + 1) tokenList
         else
           (let tokenEnd' = scan_run ln tokenEnd
            in scan_loop ln index tokenEnd' (tokenEnd' + 1)
                 (add tokenList STRING (slice ln tokenStart tokenEnd') (index + 1))))
      else tokenList)"
  by pat_completeness auto

lemma scan_run_ge: "tokenEnd \<le> scan_run ln tokenEnd"
proof (induction ln tokenEnd rule: scan_run.induct)
  case (1 ln tokenEnd)
  show ?case
  proof (cases "tokenEnd < length ln \<and> is_valid_character (ln ! tokenEnd)")
    case True
    then have "scan_run ln tokenEnd = scan_run ln (tokenEnd + 1)"
      by (subst scan_run.simps) simp
    with 1 True show ?thesis by simp
  next
    case False
    then show ?thesis by (subst scan_run.simps) auto
  qed
qed

termination scan_loop
  apply (relation "measure (\<lambda>(ln, index, tokenStart, tokenEnd, tokenList).
           if tokenStart < length ln then Suc (length ln - tokenEnd) else 0)")
        apply (auto simp: less_Suc_eq_le)
  subgoal for ln tokenStart tokenEnd
    using scan_run_ge [of tokenEnd ln] by arith
  done

declare scan_loop.simps [simp del]

text \<open>Iterating over a text file yields its lines, each with its terminator \<^verbatim>\<open>\n\<close>; only
  the last line can lack one, and no line is empty.\<close>

fun file_lines :: "string \<Rightarrow> string list" where
  "file_lines [] = []"
| "file_lines (c # cs) =
     (if c = CHR 0x0A then [c] # file_lines cs
      else (case file_lines cs of [] \<Rightarrow> [[c]] | l # ls \<Rightarrow> (c # l) # ls))"

text \<open>The loop \<^verbatim>\<open>for index, line in enumerate(file)\<close>. A line of the file is never empty,
  so \<^verbatim>\<open>line[0]\<close> is \<open>hd\<close>.\<close>

fun scan_lines :: "nat \<Rightarrow> string list \<Rightarrow> TokenList \<Rightarrow> TokenList" where
  "scan_lines index [] tokenList = tokenList"
| "scan_lines index (ln # lns) tokenList =
     (if hd ln = CHR 0x0A then scan_lines (index + 1) lns tokenList
      else scan_lines (index + 1) lns (scan_loop ln index 0 0 tokenList))"

text \<open>\<^verbatim>\<open>scan_file\<close>: \<open>fs\<close> maps the name of a readable file to its text; opening any other
  name raises \<^verbatim>\<open>OSError\<close>.\<close>

definition scan_text :: "string \<Rightarrow> TokenList" where
  "scan_text text = scan_lines 0 (file_lines text) TokenList_init"

definition scan_file :: "(string \<rightharpoonup> string) \<Rightarrow> string \<Rightarrow> error + TokenList" where
  "scan_file fs fileName =
     (case fs fileName of None \<Rightarrow> Inl OSError | Some text \<Rightarrow> Inr (scan_text text))"


subsection \<open>The build configuration and the globals\<close>

record CompileInfo =
  projectName :: string
  compiler :: string
  languageVersion :: string
  arch :: string
  outputType :: string
  buildType :: string
  files :: "string list"
  sourcePaths :: "string list"
  constants :: "string list"
  includePaths :: "string list"
  libraries :: "string list"
  objectFiles :: "string list"
  compilerFlags :: "string list"
  linkerFlags :: "string list"

definition CompileInfo_init :: CompileInfo where
  "CompileInfo_init =
     \<lparr>projectName = [], compiler = ''gcc'', languageVersion = ''c99'', arch = ''64'',
      outputType = ''executable'', buildType = ''release'', files = [], sourcePaths = [],
      constants = [], includePaths = [], libraries = [], objectFiles = [],
      compilerFlags = [], linkerFlags = []\<rparr>"

text \<open>The module's global \<^verbatim>\<open>hadError\<close>, and the lines written to standard error, one
  entry for each call of \<^verbatim>\<open>print_error\<close> (without the final line break).\<close>

record Globals =
  hadError :: bool
  stderr :: "string list"

definition Globals_init :: Globals where
  "Globals_init = \<lparr>hadError = False, stderr = []\<rparr>"

definition print_error :: "string \<Rightarrow> Globals \<Rightarrow> Globals" where
  "print_error msg g = g\<lparr>hadError := True, stderr := stderr g @ [msg]\<rparr>"

text \<open>Python's \<^verbatim>\<open>str\<close> of a line number, and the f-string
  \<^verbatim>\<open>f"[{t.line}] at -> \"{t.lexeme}\" msg"\<close> every diagnostic of the parser is built with.\<close>

fun str_nat :: "nat \<Rightarrow> string" where
  "str_nat n =
     (if n < 10 then [''0123456789'' ! n]
      else str_nat (n div 10) @ [''0123456789'' ! (n mod 10)])"

declare str_nat.simps [simp del]

definition at_message :: "Token \<Rightarrow> string \<Rightarrow> string" where
  "at_message t msg =
     ''['' @ str_nat (line t) @ ''] at -> '' @ [CHR 0x22] @ lexeme t @ [CHR 0x22] @ '' '' @ msg"

subsection \<open>The parser\<close>

text \<open>The test \<^verbatim>\<open>t == None or t.tokenType != ty\<close> on a token \<^verbatim>\<open>advance\<close> returned.\<close>

definition none_or_not :: "Token option \<Rightarrow> TokenType \<Rightarrow> bool" where
  "none_or_not t ty = (case t of None \<Rightarrow> True | Some tok \<Rightarrow> tokenType tok \<noteq> ty)"

definition get_simple_command_param ::
  "TokenList \<Rightarrow> Token \<Rightarrow> Globals \<Rightarrow> Token option \<times> TokenList \<times> Globals" where
  "get_simple_command_param tokenList command g =
     (case advance tokenList of (lparen, tokenList1) \<Rightarrow>
        if none_or_not lparen LEFT_PAREN then
          (None, tokenList1,
           print_error (at_message command
             (''Expected '' @ [CHR 0x22] @ ''('' @ [CHR 0x22] @ '' after command.'')) g)
        else
          (case advance tokenList1 of (param, tokenList2) \<Rightarrow>
             if param = None then (None, tokenList2, g)
             else
               (case advance tokenList2 of (rparen, tokenList3) \<Rightarrow>
                  if none_or_not rparen RIGHT_PAREN then
                    (None, tokenList3,
                     print_error (at_message command
                       (''Expected '' @ [CHR 0x22] @ '')'' @ [CHR 0x22] @ '' after parameter.'')) g)
                  else (param, tokenList3, g))))"

definition simple_command ::
  "TokenList \<Rightarrow> Token \<Rightarrow> Globals \<Rightarrow> Token option \<times> TokenList \<times> Globals" where
  "simple_command tokenList command g =
     (case get_simple_command_param tokenList command g of (param, tokenList1, g1) \<Rightarrow>
        if param = None \<and> hadError g1 = True then (None, skip_line tokenList1, g1)
        else if param = None then
          (None, skip_line tokenList1,
           print_error (at_message command ''Expected parameter after command.'') g1)
        else (param, skip_line tokenList1, g1))"

text \<open>\<^verbatim>\<open>consume_param\<close> and \<^verbatim>\<open>consume_comma\<close> call \<^verbatim>\<open>peek\<close> with no test of
  \<^verbatim>\<open>is_at_end\<close>; their test \<^verbatim>\<open>if param == None: return\<close> comes after \<^verbatim>\<open>peek\<close> has
  returned, and \<^verbatim>\<open>peek\<close> never returns \<^verbatim>\<open>None\<close>. The list \<^verbatim>\<open>result\<close> they append to
  is returned with the token list.\<close>

function consume_param :: "TokenList \<Rightarrow> Token list \<Rightarrow> error + TokenList \<times> Token list"
  and consume_comma :: "TokenList \<Rightarrow> Token list \<Rightarrow> error + TokenList \<times> Token list" where
  "consume_param tokenList result =
     (case peek tokenList of
        Inl e \<Rightarrow> Inl e
      | Inr param \<Rightarrow>
          if tokenType param = STRING then
            consume_comma (snd (advance tokenList)) (result @ [param])
          else Inr (tokenList, result))"
| "consume_comma tokenList result =
     (case peek tokenList of
        Inl e \<Rightarrow> Inl e
      | Inr comma \<Rightarrow>
          if tokenType comma = COMMA then
            consume_param (snd (advance tokenList)) result
          else Inr (tokenList, result))"
  by pat_completeness auto
termination
  by (relation "measure (\<lambda>x. case x of
          Inl (tokenList, result) \<Rightarrow> length (tokens tokenList) - current tokenList
        | Inr (tokenList, result) \<Rightarrow> length (tokens tokenList) - current tokenList)")
     (auto simp: peek_def advance_def Let_def split: if_splits)

declare consume_param.simps [simp del]
declare consume_comma.simps [simp del]

definition get_complex_command_params ::
  "TokenList \<Rightarrow> Token \<Rightarrow> Globals \<Rightarrow> (error + Token list option \<times> TokenList) \<times> Globals" where
  "get_complex_command_params tokenList command g =
     (case advance tokenList of (lparen, tokenList1) \<Rightarrow>
        if none_or_not lparen LEFT_PAREN then
          (Inr (None, tokenList1),
           print_error (at_message command
             (''Expected '' @ [CHR 0x22] @ ''('' @ [CHR 0x22] @ '' after command.'')) g)
        else
          (case consume_param tokenList1 [] of
             Inl e \<Rightarrow> (Inl e, g)
           | Inr (tokenList2, params) \<Rightarrow>
               if length params = 0 then (Inr (None, tokenList2), g)
               else
                 (case advance tokenList2 of (rparen, tokenList3) \<Rightarrow>
                    if none_or_not rparen RIGHT_PAREN then
                      (Inr (None, tokenList3),
                       print_error (at_message command
                         (''Expected '' @ [CHR 0x22] @ '')'' @ [CHR 0x22] @ '' after parameters.'')) g)
                    else (Inr (Some params, tokenList3), g))))"

definition complex_command ::
  "TokenList \<Rightarrow> Token \<Rightarrow> Globals \<Rightarrow> (error + Token list option \<times> TokenList) \<times> Globals" where
  "complex_command tokenList command g =
     (case get_complex_command_params tokenList command g of
        (Inl e, g1) \<Rightarrow> (Inl e, g1)
      | (Inr (params, tokenList1), g1) \<Rightarrow>
          if params = None \<and> hadError g1 = True then (Inr (None, skip_line tokenList1), g1)
          else if params = None then
            (Inr (None, skip_line tokenList1),
             print_error (at_message command ''Expected parameters after command.'') g1)
          else (Inr (params, skip_line tokenList1), g1))"

text \<open>The loop \<^verbatim>\<open>for param in params: field.append(param.lexeme)\<close>.\<close>

definition append_all :: "string list \<Rightarrow> Token list \<Rightarrow> string list" where
  "append_all field params = foldl (\<lambda>acc param. acc @ [lexeme param]) field params"

text \<open>\<^verbatim>\<open>handle_command\<close>. Its last branch calls \<^verbatim>\<open>tokenList.skip_line(command)\<close>, but
  \<^verbatim>\<open>skip_line\<close> takes no argument beside \<^verbatim>\<open>self\<close>: Python raises \<^verbatim>\<open>TypeError\<close> at the
  call, after \<^verbatim>\<open>print_error\<close> has run. A \<^verbatim>\<open>None\<close> command would raise
  \<^verbatim>\<open>AttributeError\<close> at \<^verbatim>\<open>command.lexeme\<close>.\<close>

definition handle_command ::
  "TokenList \<Rightarrow> CompileInfo \<Rightarrow> Globals \<Rightarrow> (error + TokenList \<times> CompileInfo) \<times> Globals" where
  "handle_command tokenList compileInfo g =
     (case advance tokenList of
        (None, tokenList1) \<Rightarrow> (Inl AttributeError, g)
      | (Some command, tokenList1) \<Rightarrow>
        if lexeme command = ''SetProjectName'' then
          (case simple_command tokenList1 command g of
             (None, tokenList2, g2) \<Rightarrow> (Inr (tokenList2, compileInfo), g2)
           | (Some param, tokenList2, g2) \<Rightarrow>
               (Inr (tokenList2, compileInfo\<lparr>projectName := lexeme param\<rparr>), g2))
        else if lexeme command = ''SetCompiler'' then
          (case simple_command tokenList1 command g of
             (None, tokenList2, g2) \<Rightarrow> (Inr (tokenList2, compileInfo), g2)
           | (Some param, tokenList2, g2) \<Rightarrow>
               if lexeme param \<in> {''gcc'', ''cl'', ''clang'', ''clang-cl''} then
                 (Inr (tokenList2, compileInfo\<lparr>compiler := lexeme param\<rparr>), g2)
               else
                 (Inr (tokenList2, compileInfo),
                  print_error (at_message param ''Invalid compiler.'') g2))
        else if lexeme command = ''SetLanguageVersion'' then
          (case simple_command tokenList1 command g of
             (None, tokenList2, g2) \<Rightarrow> (Inr (tokenList2, compileInfo), g2)
           | (Some param, tokenList2, g2) \<Rightarrow>
               if lexeme param \<in> {''c89'', ''c99'', ''c11'', ''c17''} then
                 (Inr (tokenList2, compileInfo\<lparr>languageVersion := lexeme param\<rparr>), g2)
               else
                 (Inr (tokenList2, compileInfo),
                  print_error (at_message param ''Invalid language version.'') g2))
        else if lexeme command = ''SetTargetArch'' then
          (case simple_command tokenList1 command g of
             (None, tokenList2, g2) \<Rightarrow> (Inr (tokenList2, compileInfo), g2)
           | (Some param, tokenList2, g2) \<Rightarrow>
               if lexeme param \<in> {''32'', ''64''} then
                 (Inr (tokenList2, compileInfo\<lparr>arch := lexeme param\<rparr>), g2)
               else
                 (Inr (tokenList2, compileInfo),
                  print_error (at_message param ''Invalid architeture.'') g2))
        else if lexeme command = ''SetOutputType'' then
          (case simple_command tokenList1 command g of
             (None, tokenList2, g2) \<Rightarrow> (Inr (tokenList2, compileInfo), g2)
           | (Some param, tokenList2, g2) \<Rightarrow>
               if lexeme param \<in> {''shared'', ''object'', ''executable''} then
                 (Inr (tokenList2, compileInfo\<lparr>outputType := lexeme param\<rparr>), g2)
               else
                 (Inr (tokenList2, compileInfo),
                  print_error (at_message param ''Invalid output type.'') g2))
        else if lexeme command = ''SetBuildType'' then
          (case simple_command tokenList1 command g of
             (None, tokenList2, g2) \<Rightarrow> (Inr (tokenList2, compileInfo), g2)
           | (Some param, tokenList2, g2) \<Rightarrow>
               if lexeme param \<in> {''debug'', ''release''} then
                 (Inr (tokenList2, compileInfo\<lparr>buildType := lexeme param\<rparr>), g2)
               else
                 (Inr (tokenList2, compileInfo),
                  print_error (at_message param ''Invalid build type.'') g2))
        else if lexeme command = ''AddFile'' then
          (case complex_command tokenList1 command g of
             (Inl e, g2) \<Rightarrow> (Inl e, g2)
           | (Inr (None, tokenList2), g2) \<Rightarrow> (Inr (tokenList2, compileInfo), g2)
           | (Inr (Some params, tokenList2), g2) \<Rightarrow>
               (Inr (tokenList2,
                     compileInfo\<lparr>files := append_all (files compileInfo) params\<rparr>), g2))
        else if lexeme command = ''AddSourcePath'' then
          (case complex_command tokenList1 command g of
             (Inl e, g2) \<Rightarrow> (Inl e, g2)
           | (Inr (None, tokenList2), g2) \<Rightarrow> (Inr (tokenList2, compileInfo), g2)
           | (Inr (Some params, tokenList2), g2) \<Rightarrow>
               (Inr (tokenList2,
                     compileInfo\<lparr>sourcePaths := append_all (sourcePaths compileInfo) params\<rparr>), g2))
        else if lexeme command = ''AddConstant'' then
          (case complex_command tokenList1 command g of
             (Inl e, g2) \<Rightarrow> (Inl e, g2)
           | (Inr (None, tokenList2), g2) \<Rightarrow> (Inr (tokenList2, compileInfo), g2)
           | (Inr (Some params, tokenList2), g2) \<Rightarrow>
               (Inr (tokenList2,
                     compileInfo\<lparr>constants := append_all (constants compileInfo) params\<rparr>), g2))
        else if lexeme command = ''AddIncludePath'' then
          (case complex_command tokenList1 command g of
             (Inl e, g2) \<Rightarrow> (Inl e, g2)
           | (Inr (None, tokenList2), g2) \<Rightarrow> (Inr (tokenList2, compileInfo), g2)
           | (Inr (Some params, tokenList2), g2) \<Rightarrow>
               (Inr (tokenList2,
                     compileInfo\<lparr>includePaths := append_all (includePaths compileInfo) params\<rparr>), g2))
        else if lexeme command = ''AddLibrary'' then
          (case complex_command tokenList1 command g of
             (Inl e, g2) \<Rightarrow> (Inl e, g2)
           | (Inr (None, tokenList2), g2) \<Rightarrow> (Inr (tokenList2, compileInfo), g2)
           | (Inr (Some params, tokenList2), g2) \<Rightarrow>
               (Inr (tokenList2,
                     compileInfo\<lparr>libraries := append_all (libraries compileInfo) params\<rparr>), g2))
        else if lexeme command = ''AddObjectFile'' then
          (case complex_command tokenList1 command g of
             (Inl e, g2) \<Rightarrow> (Inl e, g2)
           | (Inr (None, tokenList2), g2) \<Rightarrow> (Inr (tokenList2, compileInfo), g2)
           | (Inr (Some params, tokenList2), g2) \<Rightarrow>
               (Inr (tokenList2,
                     compileInfo\<lparr>objectFiles := append_all (objectFiles compileInfo) params\<rparr>), g2))
        else if lexeme command = ''AddCompilerFlag'' then
          (case complex_command tokenList1 command g of
             (Inl e, g2) \<Rightarrow> (Inl e, g2)
           | (Inr (None, tokenList2), g2) \<Rightarrow> (Inr (tokenList2, compileInfo), g2)
           | (Inr (Some params, tokenList2), g2) \<Rightarrow>
               (Inr (tokenList2,
                     compileInfo\<lparr>compilerFlags := append_all (compilerFlags compileInfo) params\<rparr>), g2))
        else if lexeme command = ''AddLinkerFlag'' then
          (case complex_command tokenList1 command g of
             (Inl e, g2) \<Rightarrow> (Inl e, g2)
           | (Inr (None, tokenList2), g2) \<Rightarrow> (Inr (tokenList2, compileInfo), g2)
           | (Inr (Some params, tokenList2), g2) \<Rightarrow>
               (Inr (tokenList2,
                     compileInfo\<lparr>linkerFlags := append_all (linkerFlags compileInfo) params\<rparr>), g2))
        else
          (Inl TypeError, print_error (at_message command ''Unkown command.'') g))"


subsection \<open>The cursor only moves forward\<close>

text \<open>Every function of the parser leaves the tokens as they are and moves the cursor
  forward; the loop of \<^verbatim>\<open>parse_tokens\<close> ends for this reason.\<close>

lemma advance_eq:
  "advance tokenList =
     (if current tokenList < length (tokens tokenList)
      then Some (tokens tokenList ! current tokenList) else None,
      tokenList\<lparr>current := Suc (current tokenList)\<rparr>)"
  by (simp add: advance_def Let_def)

lemma skip_line_progress:
  "tokens (skip_line tokenList) = tokens tokenList \<and>
   current tokenList < current (skip_line tokenList)"
proof (induction tokenList rule: skip_line.induct)
  case (1 tokenList)
  show ?case
  proof (cases "current tokenList < length (tokens tokenList) \<and>
                tokenType (tokens tokenList ! current tokenList) \<noteq> LINE_END")
    case True
    then have eq: "skip_line tokenList = skip_line (tokenList\<lparr>current := Suc (current tokenList)\<rparr>)"
      by (subst skip_line.simps) (simp add: advance_eq)
    have "tokens (skip_line (tokenList\<lparr>current := Suc (current tokenList)\<rparr>)) = tokens tokenList \<and>
          Suc (current tokenList) < current (skip_line (tokenList\<lparr>current := Suc (current tokenList)\<rparr>))"
      using 1 True
      by (auto simp: advance_eq)
    with eq show ?thesis by simp
  next
    case False
    then have "skip_line tokenList = tokenList\<lparr>current := Suc (current tokenList)\<rparr>"
      by (subst skip_line.simps) (auto simp: advance_eq)
    then show ?thesis by simp
  qed
qed

lemma skip_line_tokens: "tokens (skip_line tokenList) = tokens tokenList"
  using skip_line_progress by simp

lemma skip_line_current_less:
  "n \<le> current tokenList \<Longrightarrow> n < current (skip_line tokenList)"
  using skip_line_progress [of tokenList] by simp

lemma get_simple_command_param_progress:
  "get_simple_command_param tokenList command g = (param, tokenList', g') \<Longrightarrow>
   tokens tokenList' = tokens tokenList \<and> current tokenList < current tokenList'"
  by (auto simp: get_simple_command_param_def advance_eq split: if_splits)

lemma simple_command_progress:
  "simple_command tokenList command g = (param, tokenList', g') \<Longrightarrow>
   tokens tokenList' = tokens tokenList \<and> current tokenList < current tokenList'"
  by (auto simp: simple_command_def skip_line_tokens split: prod.splits if_splits
      dest!: get_simple_command_param_progress intro: skip_line_current_less)

lemma consume_progress:
  "consume_param tokenList result = Inr (tokenList', result') \<Longrightarrow>
     tokens tokenList' = tokens tokenList \<and> current tokenList \<le> current tokenList'"
  "consume_comma tokenList result = Inr (tokenList', result') \<Longrightarrow>
     tokens tokenList' = tokens tokenList \<and> current tokenList \<le> current tokenList'"
proof (induction tokenList result and tokenList result rule: consume_param_consume_comma.induct)
  case (1 tokenList result)
  from "1.prems" show ?case
    by (subst (asm) consume_param.simps)
       (auto split: sum.splits if_splits dest!: "1.IH" simp: advance_eq)
next
  case (2 tokenList result)
  from "2.prems" show ?case
    by (subst (asm) consume_comma.simps)
       (auto split: sum.splits if_splits dest!: "2.IH" simp: advance_eq)
qed

lemma get_complex_command_params_progress:
  "get_complex_command_params tokenList command g = (Inr (params, tokenList'), g') \<Longrightarrow>
   tokens tokenList' = tokens tokenList \<and> current tokenList < current tokenList'"
  by (auto simp: get_complex_command_params_def advance_eq
      split: if_splits sum.splits prod.splits dest!: consume_progress(1))

lemma complex_command_progress:
  "complex_command tokenList command g = (Inr (params, tokenList'), g') \<Longrightarrow>
   tokens tokenList' = tokens tokenList \<and> current tokenList < current tokenList'"
  by (auto simp: complex_command_def skip_line_tokens split: prod.splits if_splits sum.splits
      dest!: get_complex_command_params_progress intro: skip_line_current_less)

lemma handle_command_progress:
  "handle_command tokenList compileInfo g = (Inr (tokenList', compileInfo'), g') \<Longrightarrow>
   tokens tokenList' = tokens tokenList \<and> current tokenList < current tokenList'"
  unfolding handle_command_def advance_eq
  by (auto split: if_splits prod.splits option.splits sum.splits
      dest!: simple_command_progress complex_command_progress)


text \<open>The loop of \<^verbatim>\<open>parse_tokens\<close>, and \<^verbatim>\<open>parse_tokens\<close>, which starts it on a new
  \<^verbatim>\<open>CompileInfo\<close>. An exception leaves the globals as they were when it was raised.\<close>

function parse_loop ::
  "TokenList \<Rightarrow> CompileInfo \<Rightarrow> Globals \<Rightarrow> (error + CompileInfo) \<times> Globals" where
  "parse_loop tokenList compileInfo g =
     (if \<not> is_at_end tokenList then
        (case peek tokenList of
           Inl e \<Rightarrow> (Inl e, g)
         | Inr token \<Rightarrow>
             if tokenType token = STRING then
               (case handle_command tokenList compileInfo g of
                  (Inl e, g1) \<Rightarrow> (Inl e, g1)
                | (Inr (tokenList1, compileInfo1), g1) \<Rightarrow> parse_loop tokenList1 compileInfo1 g1)
             else
               parse_loop (skip_line tokenList) compileInfo
                 (print_error (at_message token ''Commands must begin with a string.'') g))
      else (Inr compileInfo, g))"
  by pat_completeness auto
termination
proof (relation "measure (\<lambda>(tokenList, compileInfo, g).
         length (tokens tokenList) - current tokenList)", goal_cases)
  case 1
  show ?case by simp
next
  case 2
  then show ?case
    by (auto simp: is_at_end_def dest!: handle_command_progress [OF sym])
next
  case (3 tokenList compileInfo g token)
  then show ?case
    using skip_line_progress [of tokenList] by (auto simp: is_at_end_def)
qed

declare parse_loop.simps [simp del]

definition parse_tokens :: "TokenList \<Rightarrow> Globals \<Rightarrow> (error + CompileInfo) \<times> Globals" where
  "parse_tokens tokenList g = parse_loop tokenList CompileInfo_init g"



section \<open>Notions used to state the claims\<close>


text \<open>The tokens of a parameter list \<^verbatim>\<open>a, b, c\<close>: the parameters with \<open>comma\<close> between
  them.\<close>

fun param_list :: "Token \<Rightarrow> Token list \<Rightarrow> Token list" where
  "param_list comma [] = []"
| "param_list comma [p] = [p]"
| "param_list comma (p # q # ps) = p # comma # param_list comma (q # ps)"

text \<open>The enumerated fields of a configuration hold legal values: the sets are those
  \<^verbatim>\<open>handle_command\<close> tests.\<close>

definition legal_config :: "CompileInfo \<Rightarrow> bool" where
  "legal_config compileInfo =
     (compiler compileInfo \<in> {''gcc'', ''cl'', ''clang'', ''clang-cl''} \<and>
      languageVersion compileInfo \<in> {''c89'', ''c99'', ''c11'', ''c17''} \<and>
      arch compileInfo \<in> {''32'', ''64''} \<and>
      outputType compileInfo \<in> {''shared'', ''object'', ''executable''} \<and>
      buildType compileInfo \<in> {''debug'', ''release''})"

text \<open>The list fields only grow at their end: each list of \<open>old\<close> is a prefix of the
  list of \<open>new\<close>.\<close>

definition accumulated :: "CompileInfo \<Rightarrow> CompileInfo \<Rightarrow> bool" where
  "accumulated old new =
     (prefix (files old) (files new) \<and> prefix (sourcePaths old) (sourcePaths new) \<and>
      prefix (constants old) (constants new) \<and> prefix (includePaths old) (includePaths new) \<and>
      prefix (libraries old) (libraries new) \<and> prefix (objectFiles old) (objectFiles new) \<and>
      prefix (compilerFlags old) (compilerFlags new) \<and>
      prefix (linkerFlags old) (linkerFlags new))"


section \<open>Lemmas on the loops\<close>

subsection \<open>One iteration of \<^verbatim>\<open>skip_line\<close> and of \<^verbatim>\<open>parse_tokens\<close>\<close>

lemma skip_line_at_LINE_END:
  "current tokenList < length (tokens tokenList) \<Longrightarrow>
   tokenType (tokens tokenList ! current tokenList) = LINE_END \<Longrightarrow>
   skip_line tokenList = tokenList\<lparr>current := Suc (current tokenList)\<rparr>"
  by (subst skip_line.simps) (simp add: advance_eq)

lemma parse_loop_at_end:
  "length (tokens tokenList) \<le> current tokenList \<Longrightarrow>
   parse_loop tokenList compileInfo g = (Inr compileInfo, g)"
  by (subst parse_loop.simps) (simp add: is_at_end_def)

lemma parse_loop_at_STRING:
  "current tokenList < length (tokens tokenList) \<Longrightarrow>
   tokenType (tokens tokenList ! current tokenList) = STRING \<Longrightarrow>
   parse_loop tokenList compileInfo g =
     (case handle_command tokenList compileInfo g of
        (Inl e, g1) \<Rightarrow> (Inl e, g1)
      | (Inr (tokenList1, compileInfo1), g1) \<Rightarrow> parse_loop tokenList1 compileInfo1 g1)"
  by (subst parse_loop.simps) (simp add: is_at_end_def peek_def)

lemma parse_loop_at_other:
  "current tokenList < length (tokens tokenList) \<Longrightarrow>
   tokenType (tokens tokenList ! current tokenList) \<noteq> STRING \<Longrightarrow>
   parse_loop tokenList compileInfo g =
     parse_loop (skip_line tokenList) compileInfo
       (print_error (at_message (tokens tokenList ! current tokenList)
          ''Commands must begin with a string.'') g)"
  by (subst parse_loop.simps) (simp add: is_at_end_def peek_def)


lemma skip_line_at_other:
  "current tokenList < length (tokens tokenList) \<Longrightarrow>
   tokenType (tokens tokenList ! current tokenList) \<noteq> LINE_END \<Longrightarrow>
   skip_line tokenList = skip_line (tokenList\<lparr>current := Suc (current tokenList)\<rparr>)"
  by (subst skip_line.simps) (simp add: advance_eq)

subsection \<open>One iteration of the scanner\<close>

lemma scan_loop_done:
  "length ln \<le> tokenStart \<Longrightarrow> scan_loop ln index tokenStart tokenEnd tokenList = tokenList"
  by (subst scan_loop.simps) simp

lemma scan_loop_LEFT_PAREN:
  "tokenStart < length ln \<Longrightarrow> ln ! tokenStart = CHR ''('' \<Longrightarrow>
   scan_loop ln index tokenStart tokenEnd tokenList =
     scan_loop ln index tokenEnd (tokenEnd + 1) (add tokenList LEFT_PAREN ''('' (index + 1))"
  by (subst scan_loop.simps) simp

lemma scan_loop_RIGHT_PAREN:
  "tokenStart < length ln \<Longrightarrow> ln ! tokenStart = CHR '')'' \<Longrightarrow>
   scan_loop ln index tokenStart tokenEnd tokenList =
     scan_loop ln index tokenEnd (tokenEnd + 1) (add tokenList RIGHT_PAREN '')'' (index + 1))"
  by (subst scan_loop.simps) simp

lemma scan_loop_COMMA:
  "tokenStart < length ln \<Longrightarrow> ln ! tokenStart = CHR '','' \<Longrightarrow>
   scan_loop ln index tokenStart tokenEnd tokenList =
     scan_loop ln index tokenEnd (tokenEnd + 1) (add tokenList COMMA '','' (index + 1))"
  by (subst scan_loop.simps) simp

lemma scan_loop_LINE_END:
  "tokenStart < length ln \<Longrightarrow> ln ! tokenStart = CHR 0x0A \<Longrightarrow>
   scan_loop ln index tokenStart tokenEnd tokenList =
     scan_loop ln index tokenEnd (tokenEnd + 1)
       (add tokenList LINE_END [CHR 0x5C, CHR ''n''] (index + 1))"
  by (subst scan_loop.simps) simp

lemma scan_loop_blank:
  "tokenStart < length ln \<Longrightarrow> ln ! tokenStart \<in> {CHR '' '', CHR 0x09, CHR 0x00} \<Longrightarrow>
   scan_loop ln index tokenStart tokenEnd tokenList =
     scan_loop ln index tokenEnd (tokenEnd + 1) tokenList"
  by (subst scan_loop.simps) auto

lemma scan_loop_other:
  "tokenStart < length ln \<Longrightarrow>
   ln ! tokenStart \<notin> {CHR ''('', CHR '')'', CHR '','', CHR 0x0A, CHR '' '', CHR 0x09, CHR 0x00} \<Longrightarrow>
   scan_loop ln index tokenStart tokenEnd tokenList =
     scan_loop ln index (scan_run ln tokenEnd) (scan_run ln tokenEnd + 1)
       (add tokenList STRING (slice ln tokenStart (scan_run ln tokenEnd)) (index + 1))"
  by (subst scan_loop.simps) (simp add: Let_def)










subsection \<open>Lines of blanks\<close>

lemma scan_loop_blanks_then_LINE_END:
  assumes "set ws \<subseteq> {CHR '' '', CHR 0x09, CHR 0x00}"
  shows "tokenStart \<le> length ws \<Longrightarrow>
         scan_loop (ws @ [CHR 0x0A]) index tokenStart (Suc tokenStart) tokenList =
           add tokenList LINE_END [CHR 0x5C, CHR ''n''] (index + 1)"
proof (induction "length ws - tokenStart" arbitrary: tokenStart)
  case 0
  then have s: "tokenStart = length ws" by simp
  then have "scan_loop (ws @ [CHR 0x0A]) index tokenStart (Suc tokenStart) tokenList =
             scan_loop (ws @ [CHR 0x0A]) index (Suc tokenStart) (Suc tokenStart + 1)
               (add tokenList LINE_END [CHR 0x5C, CHR ''n''] (index + 1))"
    by (intro scan_loop_LINE_END) simp_all
  then show ?case using s by (simp add: scan_loop_done)
next
  case (Suc n)
  then have lt: "tokenStart < length ws" by simp
  then have "ws ! tokenStart \<in> {CHR '' '', CHR 0x09, CHR 0x00}"
    using assms nth_mem by blast
  with lt have "scan_loop (ws @ [CHR 0x0A]) index tokenStart (Suc tokenStart) tokenList =
             scan_loop (ws @ [CHR 0x0A]) index (Suc tokenStart) (Suc tokenStart + 1) tokenList"
    by (intro scan_loop_blank) (simp_all add: nth_append)
  moreover have "scan_loop (ws @ [CHR 0x0A]) index (Suc tokenStart) (Suc (Suc tokenStart)) tokenList =
           add tokenList LINE_END [CHR 0x5C, CHR ''n''] (index + 1)"
    using Suc lt by (intro Suc.hyps(1)) simp_all
  ultimately show ?case by simp
qed

lemma scan_loop_blank_line:
  assumes "set ws \<subseteq> {CHR '' '', CHR 0x09, CHR 0x00}" "ws \<noteq> []"
  shows "scan_loop (ws @ [CHR 0x0A]) index 0 0 tokenList =
           add tokenList LINE_END [CHR 0x5C, CHR ''n''] (index + 1)"
proof -
  have "ws ! 0 \<in> {CHR '' '', CHR 0x09, CHR 0x00}"
    using assms nth_mem [of 0 ws] by blast
  then have "scan_loop (ws @ [CHR 0x0A]) index 0 0 tokenList =
             scan_loop (ws @ [CHR 0x0A]) index 0 (0 + 1) tokenList"
    using assms(2) by (intro scan_loop_blank) (simp_all add: nth_append)
  then show ?thesis
    using scan_loop_blanks_then_LINE_END [OF assms(1), of 0 index tokenList] by simp
qed


subsection \<open>The scanner only appends tokens\<close>

text \<open>A scan adds its tokens at the end of the token list it is given, so its tokens are
  those of the list it started from and then those of the same scan from a new list.\<close>

lemma add_tokens:
  "tokens (add tokenList ty lx n) = tokens tokenList @ [\<lparr>tokenType = ty, lexeme = lx, line = n\<rparr>]"
  by (simp add: add_def)

lemma scan_loop_appends_all:
  fixes tokenList :: TokenList
  shows "\<forall>acc. tokens (scan_loop ln index tokenStart tokenEnd acc) =
     tokens acc @ tokens (scan_loop ln index tokenStart tokenEnd TokenList_init)"
proof (induction ln index tokenStart tokenEnd tokenList rule: scan_loop.induct)
  case (1 ln index tokenStart tokenEnd tokenList)
  have init: "tokens TokenList_init = []" by (simp add: TokenList_init_def)
  show ?case
  proof (cases "tokenStart < length ln")
    case False
    then show ?thesis by (simp add: scan_loop_done init)
  next
    case True
    consider (lp) "ln ! tokenStart = CHR ''(''"
      | (rp) "ln ! tokenStart \<noteq> CHR ''(''" "ln ! tokenStart = CHR '')''"
      | (co) "ln ! tokenStart \<noteq> CHR ''(''" "ln ! tokenStart \<noteq> CHR '')''"
             "ln ! tokenStart = CHR '',''"
      | (le) "ln ! tokenStart \<noteq> CHR ''(''" "ln ! tokenStart \<noteq> CHR '')''"
             "ln ! tokenStart \<noteq> CHR '',''" "ln ! tokenStart = CHR 0x0A"
      | (bl) "ln ! tokenStart \<noteq> CHR ''(''" "ln ! tokenStart \<noteq> CHR '')''"
             "ln ! tokenStart \<noteq> CHR '',''" "ln ! tokenStart \<noteq> CHR 0x0A"
             "ln ! tokenStart \<in> {CHR '' '', CHR 0x09, CHR 0x00}"
      | (ot) "ln ! tokenStart \<noteq> CHR ''(''" "ln ! tokenStart \<noteq> CHR '')''"
             "ln ! tokenStart \<noteq> CHR '',''" "ln ! tokenStart \<noteq> CHR 0x0A"
             "ln ! tokenStart \<notin> {CHR '' '', CHR 0x09, CHR 0x00}"
      by blast
    then show ?thesis
    proof cases
      case lp
      note ih = "1.IH"(1) [OF True refl lp, rule_format]
      show ?thesis
      proof
        fix acc
        show "tokens (scan_loop ln index tokenStart tokenEnd acc) =
              tokens acc @ tokens (scan_loop ln index tokenStart tokenEnd TokenList_init)"
          unfolding scan_loop_LEFT_PAREN [OF True lp]
          by (subst ih, subst (2) ih) (simp add: add_tokens init)
      qed
    next
      case rp
      note ih = "1.IH"(2) [OF True refl rp, rule_format]
      show ?thesis
      proof
        fix acc
        show "tokens (scan_loop ln index tokenStart tokenEnd acc) =
              tokens acc @ tokens (scan_loop ln index tokenStart tokenEnd TokenList_init)"
          unfolding scan_loop_RIGHT_PAREN [OF True rp(2)]
          by (subst ih, subst (2) ih) (simp add: add_tokens init)
      qed
    next
      case co
      note ih = "1.IH"(3) [OF True refl co, rule_format]
      show ?thesis
      proof
        fix acc
        show "tokens (scan_loop ln index tokenStart tokenEnd acc) =
              tokens acc @ tokens (scan_loop ln index tokenStart tokenEnd TokenList_init)"
          unfolding scan_loop_COMMA [OF True co(3)]
          by (subst ih, subst (2) ih) (simp add: add_tokens init)
      qed
    next
      case le
      note ih = "1.IH"(4) [OF True refl le, rule_format]
      show ?thesis
      proof
        fix acc
        show "tokens (scan_loop ln index tokenStart tokenEnd acc) =
              tokens acc @ tokens (scan_loop ln index tokenStart tokenEnd TokenList_init)"
          unfolding scan_loop_LINE_END [OF True le(4)]
          by (subst ih, subst (2) ih) (simp add: add_tokens init)
      qed
    next
      case bl
      note ih = "1.IH"(5) [OF True refl bl, rule_format]
      show ?thesis
      proof
        fix acc
        show "tokens (scan_loop ln index tokenStart tokenEnd acc) =
              tokens acc @ tokens (scan_loop ln index tokenStart tokenEnd TokenList_init)"
          unfolding scan_loop_blank [OF True bl(5)]
          by (rule ih)
      qed
    next
      case ot
      then have other: "ln ! tokenStart \<notin>
          {CHR ''('', CHR '')'', CHR '','', CHR 0x0A, CHR '' '', CHR 0x09, CHR 0x00}"
        by simp
      note ih = "1.IH"(6) [OF True refl ot refl, rule_format]
      show ?thesis
      proof
        fix acc
        show "tokens (scan_loop ln index tokenStart tokenEnd acc) =
              tokens acc @ tokens (scan_loop ln index tokenStart tokenEnd TokenList_init)"
          unfolding scan_loop_other [OF True other]
          by (subst ih, subst (2) ih) (simp add: add_tokens init)
      qed
    qed
  qed
qed

lemma scan_loop_appends:
  "tokens (scan_loop ln index tokenStart tokenEnd tokenList) =
     tokens tokenList @ tokens (scan_loop ln index tokenStart tokenEnd TokenList_init)"
  using scan_loop_appends_all by blast

lemma scan_lines_appends:
  "tokens (scan_lines index lns tokenList) =
     tokens tokenList @ tokens (scan_lines index lns TokenList_init)"
proof (induction lns arbitrary: index tokenList)
  case Nil
  show ?case by (simp add: TokenList_init_def)
next
  case (Cons ln lns)
  show ?case
  proof (cases "hd ln = CHR 0x0A")
    case True
    then show ?thesis using Cons.IH [of "index + 1" tokenList] by simp
  next
    case False
    have "tokens (scan_lines index (ln # lns) tokenList) =
          tokens (scan_loop ln index 0 0 tokenList) @ tokens (scan_lines (index + 1) lns TokenList_init)"
      using False Cons.IH [of "index + 1" "scan_loop ln index 0 0 tokenList"] by simp
    moreover have "tokens (scan_lines index (ln # lns) TokenList_init) =
          tokens (scan_loop ln index 0 0 TokenList_init) @
          tokens (scan_lines (index + 1) lns TokenList_init)"
      using False Cons.IH [of "index + 1" "scan_loop ln index 0 0 TokenList_init"] by simp
    ultimately show ?thesis
      using scan_loop_appends [of ln index 0 0 tokenList] by simp
  qed
qed

subsection \<open>The first iteration on a line that begins with punctuation\<close>

lemma first_punctuation_step:
  "scan_lines index ((CHR ''('' # rest) # lns) tokenList =
     scan_lines (index + 1) lns
       (scan_loop (CHR ''('' # rest) index 1 2
          (add (add tokenList LEFT_PAREN ''('' (index + 1)) LEFT_PAREN ''('' (index + 1)))"
  "scan_lines index ((CHR '')'' # rest) # lns) tokenList =
     scan_lines (index + 1) lns
       (scan_loop (CHR '')'' # rest) index 1 2
          (add (add tokenList RIGHT_PAREN '')'' (index + 1)) RIGHT_PAREN '')'' (index + 1)))"
  "scan_lines index ((CHR '','' # rest) # lns) tokenList =
     scan_lines (index + 1) lns
       (scan_loop (CHR '','' # rest) index 1 2
          (add (add tokenList COMMA '','' (index + 1)) COMMA '','' (index + 1)))"
  by (simp_all add: scan_loop_LEFT_PAREN [of 0] scan_loop_RIGHT_PAREN [of 0]
      scan_loop_COMMA [of 0] numeral_2_eq_2)


section \<open>Lemmas on the parser\<close>

subsection \<open>A simple command on one line\<close>

lemma simple_command_accepts:
  assumes "tokens tokenList = pre @ command # lp # param # rp # le # post"
    and "current tokenList = Suc (length pre)"
    and "tokenType lp = LEFT_PAREN" "tokenType rp = RIGHT_PAREN" "tokenType le = LINE_END"
  shows "simple_command tokenList command g =
           (Some param, tokenList\<lparr>current := length pre + 5\<rparr>, g)"
  using assms
  by (simp add: simple_command_def get_simple_command_param_def advance_eq none_or_not_def
      nth_append skip_line_at_LINE_END)

lemma handle_SetProjectName:
  assumes "tokens tokenList = pre @ command # lp # param # rp # le # post"
    and "current tokenList = length pre"
    and "tokenType lp = LEFT_PAREN" "tokenType rp = RIGHT_PAREN" "tokenType le = LINE_END"
    and "lexeme command = ''SetProjectName''"
  shows "handle_command tokenList compileInfo g =
           (Inr (tokenList\<lparr>current := length pre + 5\<rparr>,
                 compileInfo\<lparr>projectName := lexeme param\<rparr>), g)"
  using simple_command_accepts
      [of "tokenList\<lparr>current := Suc (length pre)\<rparr>" pre command lp param rp le post g] assms
  by (simp add: handle_command_def advance_eq)

lemma handle_SetCompiler:
  assumes "tokens tokenList = pre @ command # lp # param # rp # le # post"
    and "current tokenList = length pre"
    and "tokenType lp = LEFT_PAREN" "tokenType rp = RIGHT_PAREN" "tokenType le = LINE_END"
    and "lexeme command = ''SetCompiler''"
  shows "handle_command tokenList compileInfo g =
           (if lexeme param \<in> {''gcc'', ''cl'', ''clang'', ''clang-cl''}
            then (Inr (tokenList\<lparr>current := length pre + 5\<rparr>,
                       compileInfo\<lparr>compiler := lexeme param\<rparr>), g)
            else (Inr (tokenList\<lparr>current := length pre + 5\<rparr>, compileInfo),
                  print_error (at_message param ''Invalid compiler.'') g))"
  using simple_command_accepts
      [of "tokenList\<lparr>current := Suc (length pre)\<rparr>" pre command lp param rp le post g] assms
  by (simp add: handle_command_def advance_eq)

lemma handle_SetLanguageVersion:
  assumes "tokens tokenList = pre @ command # lp # param # rp # le # post"
    and "current tokenList = length pre"
    and "tokenType lp = LEFT_PAREN" "tokenType rp = RIGHT_PAREN" "tokenType le = LINE_END"
    and "lexeme command = ''SetLanguageVersion''"
  shows "handle_command tokenList compileInfo g =
           (if lexeme param \<in> {''c89'', ''c99'', ''c11'', ''c17''}
            then (Inr (tokenList\<lparr>current := length pre + 5\<rparr>,
                       compileInfo\<lparr>languageVersion := lexeme param\<rparr>), g)
            else (Inr (tokenList\<lparr>current := length pre + 5\<rparr>, compileInfo),
                  print_error (at_message param ''Invalid language version.'') g))"
  using simple_command_accepts
      [of "tokenList\<lparr>current := Suc (length pre)\<rparr>" pre command lp param rp le post g] assms
  by (simp add: handle_command_def advance_eq)

lemma handle_SetTargetArch:
  assumes "tokens tokenList = pre @ command # lp # param # rp # le # post"
    and "current tokenList = length pre"
    and "tokenType lp = LEFT_PAREN" "tokenType rp = RIGHT_PAREN" "tokenType le = LINE_END"
    and "lexeme command = ''SetTargetArch''"
  shows "handle_command tokenList compileInfo g =
           (if lexeme param \<in> {''32'', ''64''}
            then (Inr (tokenList\<lparr>current := length pre + 5\<rparr>,
                       compileInfo\<lparr>arch := lexeme param\<rparr>), g)
            else (Inr (tokenList\<lparr>current := length pre + 5\<rparr>, compileInfo),
                  print_error (at_message param ''Invalid architeture.'') g))"
  using simple_command_accepts
      [of "tokenList\<lparr>current := Suc (length pre)\<rparr>" pre command lp param rp le post g] assms
  by (simp add: handle_command_def advance_eq)

lemma handle_SetOutputType:
  assumes "tokens tokenList = pre @ command # lp # param # rp # le # post"
    and "current tokenList = length pre"
    and "tokenType lp = LEFT_PAREN" "tokenType rp = RIGHT_PAREN" "tokenType le = LINE_END"
    and "lexeme command = ''SetOutputType''"
  shows "handle_command tokenList compileInfo g =
           (if lexeme param \<in> {''shared'', ''object'', ''executable''}
            then (Inr (tokenList\<lparr>current := length pre + 5\<rparr>,
                       compileInfo\<lparr>outputType := lexeme param\<rparr>), g)
            else (Inr (tokenList\<lparr>current := length pre + 5\<rparr>, compileInfo),
                  print_error (at_message param ''Invalid output type.'') g))"
  using simple_command_accepts
      [of "tokenList\<lparr>current := Suc (length pre)\<rparr>" pre command lp param rp le post g] assms
  by (simp add: handle_command_def advance_eq)

lemma handle_SetBuildType:
  assumes "tokens tokenList = pre @ command # lp # param # rp # le # post"
    and "current tokenList = length pre"
    and "tokenType lp = LEFT_PAREN" "tokenType rp = RIGHT_PAREN" "tokenType le = LINE_END"
    and "lexeme command = ''SetBuildType''"
  shows "handle_command tokenList compileInfo g =
           (if lexeme param \<in> {''debug'', ''release''}
            then (Inr (tokenList\<lparr>current := length pre + 5\<rparr>,
                       compileInfo\<lparr>buildType := lexeme param\<rparr>), g)
            else (Inr (tokenList\<lparr>current := length pre + 5\<rparr>, compileInfo),
                  print_error (at_message param ''Invalid build type.'') g))"
  using simple_command_accepts
      [of "tokenList\<lparr>current := Suc (length pre)\<rparr>" pre command lp param rp le post g] assms
  by (simp add: handle_command_def advance_eq)

lemma parse_loop_handled:
  assumes "tokens tokenList = pre @ command # rest" "current tokenList = length pre"
    and "tokenType command = STRING"
    and "handle_command tokenList compileInfo g = (Inr (tokenList', compileInfo'), g')"
  shows "parse_loop tokenList compileInfo g = parse_loop tokenList' compileInfo' g'"
  using assms by (simp add: parse_loop_at_STRING)

lemma print_error_hadError: "hadError (print_error msg g)"
  by (simp add: print_error_def)

lemma simple_command_hadError:
  "simple_command tokenList command g = (param, tokenList', g') \<Longrightarrow> hadError g \<Longrightarrow> hadError g'"
  by (auto simp: simple_command_def get_simple_command_param_def advance_eq print_error_def
      split: if_splits)

lemma complex_command_hadError:
  "complex_command tokenList command g = (r, g') \<Longrightarrow> hadError g \<Longrightarrow> hadError g'"
  by (auto simp: complex_command_def get_complex_command_params_def advance_eq print_error_def
      split: if_splits sum.splits prod.splits)

subsection \<open>What \<^verbatim>\<open>handle_command\<close> preserves\<close>

lemma legal_config_scalar_update:
  "legal_config compileInfo \<Longrightarrow> legal_config (compileInfo\<lparr>projectName := v\<rparr>)"
  "legal_config compileInfo \<Longrightarrow> v \<in> {''gcc'', ''cl'', ''clang'', ''clang-cl''} \<Longrightarrow>
     legal_config (compileInfo\<lparr>compiler := v\<rparr>)"
  "legal_config compileInfo \<Longrightarrow> v \<in> {''c89'', ''c99'', ''c11'', ''c17''} \<Longrightarrow>
     legal_config (compileInfo\<lparr>languageVersion := v\<rparr>)"
  "legal_config compileInfo \<Longrightarrow> v \<in> {''32'', ''64''} \<Longrightarrow>
     legal_config (compileInfo\<lparr>arch := v\<rparr>)"
  "legal_config compileInfo \<Longrightarrow> v \<in> {''shared'', ''object'', ''executable''} \<Longrightarrow>
     legal_config (compileInfo\<lparr>outputType := v\<rparr>)"
  "legal_config compileInfo \<Longrightarrow> v \<in> {''debug'', ''release''} \<Longrightarrow>
     legal_config (compileInfo\<lparr>buildType := v\<rparr>)"
  by (simp_all add: legal_config_def)

lemma legal_config_list_update:
  "legal_config (compileInfo\<lparr>files := xs\<rparr>) = legal_config compileInfo"
  "legal_config (compileInfo\<lparr>sourcePaths := xs\<rparr>) = legal_config compileInfo"
  "legal_config (compileInfo\<lparr>constants := xs\<rparr>) = legal_config compileInfo"
  "legal_config (compileInfo\<lparr>includePaths := xs\<rparr>) = legal_config compileInfo"
  "legal_config (compileInfo\<lparr>libraries := xs\<rparr>) = legal_config compileInfo"
  "legal_config (compileInfo\<lparr>objectFiles := xs\<rparr>) = legal_config compileInfo"
  "legal_config (compileInfo\<lparr>compilerFlags := xs\<rparr>) = legal_config compileInfo"
  "legal_config (compileInfo\<lparr>linkerFlags := xs\<rparr>) = legal_config compileInfo"
  by (simp_all add: legal_config_def)

lemma handle_command_legal:
  "handle_command tokenList compileInfo g = (Inr (tokenList', compileInfo'), g') \<Longrightarrow>
   legal_config compileInfo \<Longrightarrow> legal_config compileInfo'"
  unfolding handle_command_def advance_eq
  by (auto split: if_splits prod.splits option.splits sum.splits
      simp: legal_config_list_update simp del: insert_iff
      intro: legal_config_scalar_update)


lemma handle_command_hadError:
  "handle_command tokenList compileInfo g = (r, g') \<Longrightarrow> hadError g \<Longrightarrow> hadError g'"
proof -
  have s: "\<And>tokenList command g param tokenList' g'.
      simple_command tokenList command g = (param, tokenList', g') \<Longrightarrow> hadError g \<longrightarrow> hadError g'"
    using simple_command_hadError by blast
  have c: "\<And>tokenList command g r g'.
      complex_command tokenList command g = (r, g') \<Longrightarrow> hadError g \<longrightarrow> hadError g'"
    using complex_command_hadError by blast
  show "handle_command tokenList compileInfo g = (r, g') \<Longrightarrow> hadError g \<Longrightarrow> hadError g'"
    unfolding handle_command_def advance_eq
    by (auto split: if_splits prod.splits option.splits sum.splits
        dest!: s c simp: print_error_hadError)
qed

subsection \<open>What the loop of \<^verbatim>\<open>parse_tokens\<close> preserves\<close>

lemma parse_loop_hadError:
  "hadError g \<Longrightarrow> hadError (snd (parse_loop tokenList compileInfo g))"
proof (induction tokenList compileInfo g rule: parse_loop.induct)
  case (1 tokenList compileInfo g)
  show ?case
  proof (cases "is_at_end tokenList")
    case True
    then show ?thesis using "1.prems" by (subst parse_loop.simps) simp
  next
    case False
    then obtain token where p: "peek tokenList = Inr token"
      by (auto simp: is_at_end_def peek_def)
    show ?thesis
    proof (cases "tokenType token = STRING")
      case s: True
      obtain r g1 where h: "handle_command tokenList compileInfo g = (r, g1)"
        by (cases "handle_command tokenList compileInfo g")
      then have g1: "hadError g1" using "1.prems" by (rule handle_command_hadError)
      show ?thesis
      proof (cases r)
        case (Inl e)
        with False p s h g1 show ?thesis by (subst parse_loop.simps) simp
      next
        case (Inr b)
        then obtain tokenList1 compileInfo1 where b: "b = (tokenList1, compileInfo1)"
          by (cases b)
        have "hadError (snd (parse_loop tokenList1 compileInfo1 g1))"
          using "1.IH"(1) [OF False p s h [symmetric] Inr b [symmetric] g1] .
        with False p s h Inr b show ?thesis by (subst parse_loop.simps) simp
      qed
    next
      case n: False
      have "hadError (snd (parse_loop (skip_line tokenList) compileInfo
               (print_error (at_message token ''Commands must begin with a string.'') g)))"
        using "1.IH"(2) [OF False p n] by (simp add: print_error_hadError)
      with False p n show ?thesis by (subst parse_loop.simps) simp
    qed
  qed
qed


lemma parse_loop_invariant:
  assumes step: "\<And>tokenList compileInfo g tokenList' compileInfo' g'.
      handle_command tokenList compileInfo g = (Inr (tokenList', compileInfo'), g') \<Longrightarrow>
      P compileInfo \<Longrightarrow> P compileInfo'"
  shows "P compileInfo \<Longrightarrow> parse_loop tokenList compileInfo g = (Inr compileInfo', g') \<Longrightarrow>
         P compileInfo'"
proof (induction tokenList compileInfo g rule: parse_loop.induct)
  case (1 tokenList compileInfo g)
  show ?case
  proof (cases "is_at_end tokenList")
    case True
    then show ?thesis using "1.prems" by (subst (asm) parse_loop.simps) simp
  next
    case False
    then obtain token where p: "peek tokenList = Inr token"
      by (auto simp: is_at_end_def peek_def)
    show ?thesis
    proof (cases "tokenType token = STRING")
      case s: True
      obtain r g1 where h: "handle_command tokenList compileInfo g = (r, g1)"
        by (cases "handle_command tokenList compileInfo g")
      show ?thesis
      proof (cases r)
        case (Inl e)
        with False p s h "1.prems"(2) show ?thesis by (subst (asm) parse_loop.simps) simp
      next
        case (Inr b)
        then obtain tokenList1 compileInfo1 where b: "b = (tokenList1, compileInfo1)"
          by (cases b)
        have P1: "P compileInfo1"
          using step [of tokenList compileInfo g tokenList1 compileInfo1 g1] h Inr b "1.prems"(1)
          by simp
        have "parse_loop tokenList1 compileInfo1 g1 = (Inr compileInfo', g')"
          using False p s h Inr b "1.prems"(2) by (subst (asm) parse_loop.simps) simp
        from "1.IH"(1) [OF False p s h [symmetric] Inr b [symmetric] P1 this] show ?thesis .
      qed
    next
      case n: False
      have "parse_loop (skip_line tokenList) compileInfo
               (print_error (at_message token ''Commands must begin with a string.'') g) =
            (Inr compileInfo', g')"
        using False p n "1.prems"(2) by (subst (asm) parse_loop.simps) simp
      from "1.IH"(2) [OF False p n "1.prems"(1) this] show ?thesis .
    qed
  qed
qed

lemma parse_loop_legal:
  "legal_config compileInfo \<Longrightarrow> parse_loop tokenList compileInfo g = (Inr compileInfo', g') \<Longrightarrow>
   legal_config compileInfo'"
  using handle_command_legal by (rule parse_loop_invariant)

lemma legal_config_init: "legal_config CompileInfo_init"
  by (simp add: legal_config_def CompileInfo_init_def)

subsection \<open>A simple command with a value that is not legal\<close>

lemma illegal_value_step:
  assumes "tokens tokenList = pre @ command # lp # param # rp # le # post"
    and "current tokenList = length pre"
    and "tokenType command = STRING" "tokenType lp = LEFT_PAREN"
    and "tokenType rp = RIGHT_PAREN" "tokenType le = LINE_END"
  shows
  "(lexeme command = ''SetCompiler'' \<and> lexeme param \<notin> {''gcc'', ''cl'', ''clang'', ''clang-cl''} \<longrightarrow>
      parse_loop tokenList compileInfo g =
        parse_loop (tokenList\<lparr>current := length pre + 5\<rparr>) compileInfo
          (print_error (at_message param ''Invalid compiler.'') g)) \<and>
   (lexeme command = ''SetLanguageVersion'' \<and> lexeme param \<notin> {''c89'', ''c99'', ''c11'', ''c17''} \<longrightarrow>
      parse_loop tokenList compileInfo g =
        parse_loop (tokenList\<lparr>current := length pre + 5\<rparr>) compileInfo
          (print_error (at_message param ''Invalid language version.'') g)) \<and>
   (lexeme command = ''SetTargetArch'' \<and> lexeme param \<notin> {''32'', ''64''} \<longrightarrow>
      parse_loop tokenList compileInfo g =
        parse_loop (tokenList\<lparr>current := length pre + 5\<rparr>) compileInfo
          (print_error (at_message param ''Invalid architeture.'') g)) \<and>
   (lexeme command = ''SetOutputType'' \<and> lexeme param \<notin> {''shared'', ''object'', ''executable''} \<longrightarrow>
      parse_loop tokenList compileInfo g =
        parse_loop (tokenList\<lparr>current := length pre + 5\<rparr>) compileInfo
          (print_error (at_message param ''Invalid output type.'') g)) \<and>
   (lexeme command = ''SetBuildType'' \<and> lexeme param \<notin> {''debug'', ''release''} \<longrightarrow>
      parse_loop tokenList compileInfo g =
        parse_loop (tokenList\<lparr>current := length pre + 5\<rparr>) compileInfo
          (print_error (at_message param ''Invalid build type.'') g))"
proof -
  note h = assms(1,2,4,5,6)
  note p = parse_loop_handled [OF assms(1,2,3)]
  show ?thesis
    by (intro conjI impI; (elim conjE)?; rule p)
       (simp_all add: handle_SetCompiler [OF h] handle_SetLanguageVersion [OF h] handle_SetTargetArch [OF h] handle_SetOutputType [OF h] handle_SetBuildType [OF h])
qed

subsection \<open>A complex command on one line\<close>

lemma append_all_eq: "append_all field params = field @ map lexeme params"
  unfolding append_all_def by (induction params arbitrary: field) simp_all

lemma consume_param_list:
  "tokenType comma = COMMA \<Longrightarrow> tokenType stop \<noteq> COMMA \<Longrightarrow>
   \<forall>p \<in> set params. tokenType p = STRING \<Longrightarrow> params \<noteq> [] \<Longrightarrow>
   tokens tokenList = pre @ param_list comma params @ stop # post \<Longrightarrow>
   current tokenList = length pre \<Longrightarrow>
   consume_param tokenList result =
     Inr (tokenList\<lparr>current := length pre + length (param_list comma params)\<rparr>,
          result @ params)"
proof (induction comma params arbitrary: pre tokenList result rule: param_list.induct)
  case (1 comma)
  from "1.prems"(4) show ?case by simp
next
  case (2 comma p)
  from "2.prems"(5) have t: "tokens tokenList = pre @ p # stop # post" by simp
  note c = "2.prems"(6)
  from "2.prems"(3) have p: "tokenType p = STRING" by simp
  have "consume_comma (tokenList\<lparr>current := Suc (length pre)\<rparr>) (result @ [p]) =
          Inr (tokenList\<lparr>current := Suc (length pre)\<rparr>, result @ [p])"
    using t "2.prems"(2) by (subst consume_comma.simps) (simp add: peek_def nth_append)
  then show ?case
    using t c p by (subst consume_param.simps) (simp add: peek_def advance_eq)
next
  case (3 comma p q ps)
  from "3.prems"(5)
  have t: "tokens tokenList = pre @ p # comma # param_list comma (q # ps) @ stop # post"
    by simp
  note c = "3.prems"(6)
  from "3.prems"(3) have p: "tokenType p = STRING" and ps: "\<forall>p \<in> set (q # ps). tokenType p = STRING"
    by simp_all
  let ?tl2 = "tokenList\<lparr>current := Suc (Suc (length pre))\<rparr>"
  have t2: "tokens ?tl2 = (pre @ [p, comma]) @ param_list comma (q # ps) @ stop # post"
    using t by simp
  have c2: "current ?tl2 = length (pre @ [p, comma])" by simp
  have ne: "q # ps \<noteq> []" by simp
  have "consume_param ?tl2 (result @ [p]) =
          Inr (?tl2\<lparr>current := length (pre @ [p, comma]) + length (param_list comma (q # ps))\<rparr>,
               (result @ [p]) @ q # ps)"
    by (rule "3.IH" [OF "3.prems"(1) "3.prems"(2) ps ne t2 c2])
  then have r: "consume_param ?tl2 (result @ [p]) =
          Inr (tokenList\<lparr>current := length pre + length (param_list comma (p # q # ps))\<rparr>,
               result @ p # q # ps)"
    by simp
  have "consume_comma (tokenList\<lparr>current := Suc (length pre)\<rparr>) (result @ [p]) =
          consume_param ?tl2 (result @ [p])"
    using t "3.prems"(1) by (subst consume_comma.simps) (simp add: peek_def advance_eq nth_append)
  with r show ?case
    using t c p by (subst consume_param.simps) (simp add: peek_def advance_eq)
qed

lemma complex_command_accepts:
  assumes "tokens tokenList = pre @ command # lp # param_list comma params @ rp # le # post"
    and "current tokenList = Suc (length pre)"
    and "tokenType lp = LEFT_PAREN" "tokenType rp = RIGHT_PAREN" "tokenType le = LINE_END"
    and "tokenType comma = COMMA" "\<forall>p \<in> set params. tokenType p = STRING" "params \<noteq> []"
  shows "complex_command tokenList command g =
           (Inr (Some params,
                 tokenList\<lparr>current := length pre + length (param_list comma params) + 4\<rparr>), g)"
proof -
  let ?n = "length (param_list comma params)"
  let ?tl1 = "tokenList\<lparr>current := Suc (Suc (length pre))\<rparr>"
  have lp: "tokens tokenList ! Suc (length pre) = lp"
    using assms(1) by (simp add: nth_append)
  have t1: "tokens ?tl1 = (pre @ [command, lp]) @ param_list comma params @ rp # le # post"
    using assms(1) by simp
  have c1: "current ?tl1 = length (pre @ [command, lp])" by simp
  have nc: "tokenType rp \<noteq> COMMA" using assms(4) by simp
  have "consume_param ?tl1 [] =
      Inr (?tl1\<lparr>current := length (pre @ [command, lp]) + ?n\<rparr>, [] @ params)"
    by (rule consume_param_list [OF assms(6) nc assms(7) assms(8) t1 c1])
  then have cp: "consume_param ?tl1 [] = Inr (tokenList\<lparr>current := length pre + ?n + 2\<rparr>, params)"
    by simp
  have "tokens tokenList = (pre @ command # lp # param_list comma params) @ rp # le # post"
    using assms(1) by simp
  then have rp: "tokens tokenList ! (length pre + ?n + 2) = rp"
    and le: "tokens tokenList ! (length pre + ?n + 3) = le"
    by (simp_all add: nth_append)
  have len: "length (tokens tokenList) = length pre + ?n + 4 + length post"
    using assms(1) by simp
  have g: "get_complex_command_params tokenList command g =
      (Inr (Some params, tokenList\<lparr>current := length pre + ?n + 3\<rparr>), g)"
    using assms(2,3,4,8) lp cp rp len
    by (simp add: get_complex_command_params_def advance_eq none_or_not_def)
  have "skip_line (tokenList\<lparr>current := length pre + ?n + 3\<rparr>) =
      tokenList\<lparr>current := length pre + ?n + 4\<rparr>"
    using le len assms(5) by (subst skip_line_at_LINE_END) simp_all
  with g show ?thesis by (simp add: complex_command_def)
qed

lemma accumulated_refl: "accumulated compileInfo compileInfo"
  by (simp add: accumulated_def)

lemma accumulated_trans:
  "accumulated a b \<Longrightarrow> accumulated b c \<Longrightarrow> accumulated a c"
  unfolding accumulated_def by (meson prefix_order.trans)

lemma accumulated_scalar_update:
  "accumulated old (compileInfo\<lparr>projectName := v\<rparr>) = accumulated old compileInfo"
  "accumulated old (compileInfo\<lparr>compiler := v\<rparr>) = accumulated old compileInfo"
  "accumulated old (compileInfo\<lparr>languageVersion := v\<rparr>) = accumulated old compileInfo"
  "accumulated old (compileInfo\<lparr>arch := v\<rparr>) = accumulated old compileInfo"
  "accumulated old (compileInfo\<lparr>outputType := v\<rparr>) = accumulated old compileInfo"
  "accumulated old (compileInfo\<lparr>buildType := v\<rparr>) = accumulated old compileInfo"
  by (simp_all add: accumulated_def)

lemma accumulated_list_update:
  "accumulated old compileInfo \<Longrightarrow>
     accumulated old (compileInfo\<lparr>files := append_all (files compileInfo) params\<rparr>)"
  "accumulated old compileInfo \<Longrightarrow>
     accumulated old (compileInfo\<lparr>sourcePaths := append_all (sourcePaths compileInfo) params\<rparr>)"
  "accumulated old compileInfo \<Longrightarrow>
     accumulated old (compileInfo\<lparr>constants := append_all (constants compileInfo) params\<rparr>)"
  "accumulated old compileInfo \<Longrightarrow>
     accumulated old (compileInfo\<lparr>includePaths := append_all (includePaths compileInfo) params\<rparr>)"
  "accumulated old compileInfo \<Longrightarrow>
     accumulated old (compileInfo\<lparr>libraries := append_all (libraries compileInfo) params\<rparr>)"
  "accumulated old compileInfo \<Longrightarrow>
     accumulated old (compileInfo\<lparr>objectFiles := append_all (objectFiles compileInfo) params\<rparr>)"
  "accumulated old compileInfo \<Longrightarrow>
     accumulated old (compileInfo\<lparr>compilerFlags := append_all (compilerFlags compileInfo) params\<rparr>)"
  "accumulated old compileInfo \<Longrightarrow>
     accumulated old (compileInfo\<lparr>linkerFlags := append_all (linkerFlags compileInfo) params\<rparr>)"
  by (simp_all add: accumulated_def append_all_eq prefix_def) auto

lemma handle_command_accumulated:
  "handle_command tokenList compileInfo g = (Inr (tokenList', compileInfo'), g') \<Longrightarrow>
   accumulated old compileInfo \<Longrightarrow> accumulated old compileInfo'"
  unfolding handle_command_def advance_eq
  by (auto split: if_splits prod.splits option.splits sum.splits
      simp: accumulated_scalar_update simp del: insert_iff
      intro: accumulated_list_update)

lemma parse_loop_accumulated:
  assumes "parse_loop tokenList compileInfo g = (Inr compileInfo', g')"
  shows "accumulated compileInfo compileInfo'"
proof (rule parse_loop_invariant [where P = "accumulated compileInfo"])
  show "\<And>tokenList ci g tokenList' ci' g'.
      handle_command tokenList ci g = (Inr (tokenList', ci'), g') \<Longrightarrow>
      accumulated compileInfo ci \<Longrightarrow> accumulated compileInfo ci'"
    by (rule handle_command_accumulated)
  show "accumulated compileInfo compileInfo" by (rule accumulated_refl)
  show "parse_loop tokenList compileInfo g = (Inr compileInfo', g')" by (rule assms)
qed

lemma handle_AddFile:
  assumes "tokens tokenList = pre @ command # lp # param_list comma params @ rp # le # post"
    and "current tokenList = length pre"
    and "tokenType lp = LEFT_PAREN" "tokenType rp = RIGHT_PAREN" "tokenType le = LINE_END"
    and "tokenType comma = COMMA" "\<forall>p \<in> set params. tokenType p = STRING" "params \<noteq> []"
    and "lexeme command = ''AddFile''"
  shows "handle_command tokenList compileInfo g =
           (Inr (tokenList\<lparr>current := length pre + length (param_list comma params) + 4\<rparr>,
                 compileInfo\<lparr>files := files compileInfo @ map lexeme params\<rparr>), g)"
proof -
  have "complex_command (tokenList\<lparr>current := Suc (length pre)\<rparr>) command g =
      (Inr (Some params,
            tokenList\<lparr>current := length pre + length (param_list comma params) + 4\<rparr>), g)"
    using complex_command_accepts [of "tokenList\<lparr>current := Suc (length pre)\<rparr>" pre command lp
        comma params rp le post g] assms(1,3,4,5,6,7,8)
    by simp
  then show ?thesis
    using assms(1,2,9) by (simp add: handle_command_def advance_eq append_all_eq)
qed

lemma handle_AddSourcePath:
  assumes "tokens tokenList = pre @ command # lp # param_list comma params @ rp # le # post"
    and "current tokenList = length pre"
    and "tokenType lp = LEFT_PAREN" "tokenType rp = RIGHT_PAREN" "tokenType le = LINE_END"
    and "tokenType comma = COMMA" "\<forall>p \<in> set params. tokenType p = STRING" "params \<noteq> []"
    and "lexeme command = ''AddSourcePath''"
  shows "handle_command tokenList compileInfo g =
           (Inr (tokenList\<lparr>current := length pre + length (param_list comma params) + 4\<rparr>,
                 compileInfo\<lparr>sourcePaths := sourcePaths compileInfo @ map lexeme params\<rparr>), g)"
proof -
  have "complex_command (tokenList\<lparr>current := Suc (length pre)\<rparr>) command g =
      (Inr (Some params,
            tokenList\<lparr>current := length pre + length (param_list comma params) + 4\<rparr>), g)"
    using complex_command_accepts [of "tokenList\<lparr>current := Suc (length pre)\<rparr>" pre command lp
        comma params rp le post g] assms(1,3,4,5,6,7,8)
    by simp
  then show ?thesis
    using assms(1,2,9) by (simp add: handle_command_def advance_eq append_all_eq)
qed

lemma handle_AddConstant:
  assumes "tokens tokenList = pre @ command # lp # param_list comma params @ rp # le # post"
    and "current tokenList = length pre"
    and "tokenType lp = LEFT_PAREN" "tokenType rp = RIGHT_PAREN" "tokenType le = LINE_END"
    and "tokenType comma = COMMA" "\<forall>p \<in> set params. tokenType p = STRING" "params \<noteq> []"
    and "lexeme command = ''AddConstant''"
  shows "handle_command tokenList compileInfo g =
           (Inr (tokenList\<lparr>current := length pre + length (param_list comma params) + 4\<rparr>,
                 compileInfo\<lparr>constants := constants compileInfo @ map lexeme params\<rparr>), g)"
proof -
  have "complex_command (tokenList\<lparr>current := Suc (length pre)\<rparr>) command g =
      (Inr (Some params,
            tokenList\<lparr>current := length pre + length (param_list comma params) + 4\<rparr>), g)"
    using complex_command_accepts [of "tokenList\<lparr>current := Suc (length pre)\<rparr>" pre command lp
        comma params rp le post g] assms(1,3,4,5,6,7,8)
    by simp
  then show ?thesis
    using assms(1,2,9) by (simp add: handle_command_def advance_eq append_all_eq)
qed

lemma handle_AddIncludePath:
  assumes "tokens tokenList = pre @ command # lp # param_list comma params @ rp # le # post"
    and "current tokenList = length pre"
    and "tokenType lp = LEFT_PAREN" "tokenType rp = RIGHT_PAREN" "tokenType le = LINE_END"
    and "tokenType comma = COMMA" "\<forall>p \<in> set params. tokenType p = STRING" "params \<noteq> []"
    and "lexeme command = ''AddIncludePath''"
  shows "handle_command tokenList compileInfo g =
           (Inr (tokenList\<lparr>current := length pre + length (param_list comma params) + 4\<rparr>,
                 compileInfo\<lparr>includePaths := includePaths compileInfo @ map lexeme params\<rparr>), g)"
proof -
  have "complex_command (tokenList\<lparr>current := Suc (length pre)\<rparr>) command g =
      (Inr (Some params,
            tokenList\<lparr>current := length pre + length (param_list comma params) + 4\<rparr>), g)"
    using complex_command_accepts [of "tokenList\<lparr>current := Suc (length pre)\<rparr>" pre command lp
        comma params rp le post g] assms(1,3,4,5,6,7,8)
    by simp
  then show ?thesis
    using assms(1,2,9) by (simp add: handle_command_def advance_eq append_all_eq)
qed

lemma handle_AddLibrary:
  assumes "tokens tokenList = pre @ command # lp # param_list comma params @ rp # le # post"
    and "current tokenList = length pre"
    and "tokenType lp = LEFT_PAREN" "tokenType rp = RIGHT_PAREN" "tokenType le = LINE_END"
    and "tokenType comma = COMMA" "\<forall>p \<in> set params. tokenType p = STRING" "params \<noteq> []"
    and "lexeme command = ''AddLibrary''"
  shows "handle_command tokenList compileInfo g =
           (Inr (tokenList\<lparr>current := length pre + length (param_list comma params) + 4\<rparr>,
                 compileInfo\<lparr>libraries := libraries compileInfo @ map lexeme params\<rparr>), g)"
proof -
  have "complex_command (tokenList\<lparr>current := Suc (length pre)\<rparr>) command g =
      (Inr (Some params,
            tokenList\<lparr>current := length pre + length (param_list comma params) + 4\<rparr>), g)"
    using complex_command_accepts [of "tokenList\<lparr>current := Suc (length pre)\<rparr>" pre command lp
        comma params rp le post g] assms(1,3,4,5,6,7,8)
    by simp
  then show ?thesis
    using assms(1,2,9) by (simp add: handle_command_def advance_eq append_all_eq)
qed

lemma handle_AddObjectFile:
  assumes "tokens tokenList = pre @ command # lp # param_list comma params @ rp # le # post"
    and "current tokenList = length pre"
    and "tokenType lp = LEFT_PAREN" "tokenType rp = RIGHT_PAREN" "tokenType le = LINE_END"
    and "tokenType comma = COMMA" "\<forall>p \<in> set params. tokenType p = STRING" "params \<noteq> []"
    and "lexeme command = ''AddObjectFile''"
  shows "handle_command tokenList compileInfo g =
           (Inr (tokenList\<lparr>current := length pre + length (param_list comma params) + 4\<rparr>,
                 compileInfo\<lparr>objectFiles := objectFiles compileInfo @ map lexeme params\<rparr>), g)"
proof -
  have "complex_command (tokenList\<lparr>current := Suc (length pre)\<rparr>) command g =
      (Inr (Some params,
            tokenList\<lparr>current := length pre + length (param_list comma params) + 4\<rparr>), g)"
    using complex_command_accepts [of "tokenList\<lparr>current := Suc (length pre)\<rparr>" pre command lp
        comma params rp le post g] assms(1,3,4,5,6,7,8)
    by simp
  then show ?thesis
    using assms(1,2,9) by (simp add: handle_command_def advance_eq append_all_eq)
qed

lemma handle_AddCompilerFlag:
  assumes "tokens tokenList = pre @ command # lp # param_list comma params @ rp # le # post"
    and "current tokenList = length pre"
    and "tokenType lp = LEFT_PAREN" "tokenType rp = RIGHT_PAREN" "tokenType le = LINE_END"
    and "tokenType comma = COMMA" "\<forall>p \<in> set params. tokenType p = STRING" "params \<noteq> []"
    and "lexeme command = ''AddCompilerFlag''"
  shows "handle_command tokenList compileInfo g =
           (Inr (tokenList\<lparr>current := length pre + length (param_list comma params) + 4\<rparr>,
                 compileInfo\<lparr>compilerFlags := compilerFlags compileInfo @ map lexeme params\<rparr>), g)"
proof -
  have "complex_command (tokenList\<lparr>current := Suc (length pre)\<rparr>) command g =
      (Inr (Some params,
            tokenList\<lparr>current := length pre + length (param_list comma params) + 4\<rparr>), g)"
    using complex_command_accepts [of "tokenList\<lparr>current := Suc (length pre)\<rparr>" pre command lp
        comma params rp le post g] assms(1,3,4,5,6,7,8)
    by simp
  then show ?thesis
    using assms(1,2,9) by (simp add: handle_command_def advance_eq append_all_eq)
qed

lemma handle_AddLinkerFlag:
  assumes "tokens tokenList = pre @ command # lp # param_list comma params @ rp # le # post"
    and "current tokenList = length pre"
    and "tokenType lp = LEFT_PAREN" "tokenType rp = RIGHT_PAREN" "tokenType le = LINE_END"
    and "tokenType comma = COMMA" "\<forall>p \<in> set params. tokenType p = STRING" "params \<noteq> []"
    and "lexeme command = ''AddLinkerFlag''"
  shows "handle_command tokenList compileInfo g =
           (Inr (tokenList\<lparr>current := length pre + length (param_list comma params) + 4\<rparr>,
                 compileInfo\<lparr>linkerFlags := linkerFlags compileInfo @ map lexeme params\<rparr>), g)"
proof -
  have "complex_command (tokenList\<lparr>current := Suc (length pre)\<rparr>) command g =
      (Inr (Some params,
            tokenList\<lparr>current := length pre + length (param_list comma params) + 4\<rparr>), g)"
    using complex_command_accepts [of "tokenList\<lparr>current := Suc (length pre)\<rparr>" pre command lp
        comma params rp le post g] assms(1,3,4,5,6,7,8)
    by simp
  then show ?thesis
    using assms(1,2,9) by (simp add: handle_command_def advance_eq append_all_eq)
qed

lemma complex_command_step:
  assumes "tokens tokenList = pre @ command # lp # param_list comma params @ rp # le # post"
    and "current tokenList = length pre"
    and "tokenType command = STRING" "tokenType lp = LEFT_PAREN"
    and "tokenType rp = RIGHT_PAREN" "tokenType le = LINE_END"
    and "tokenType comma = COMMA" "\<forall>p \<in> set params. tokenType p = STRING" "params \<noteq> []"
  shows
  "(lexeme command = ''AddFile'' \<longrightarrow>
      parse_loop tokenList compileInfo g =
        parse_loop (tokenList\<lparr>current := length pre + length (param_list comma params) + 4\<rparr>)
          (compileInfo\<lparr>files := files compileInfo @ map lexeme params\<rparr>) g) \<and>
   (lexeme command = ''AddSourcePath'' \<longrightarrow>
      parse_loop tokenList compileInfo g =
        parse_loop (tokenList\<lparr>current := length pre + length (param_list comma params) + 4\<rparr>)
          (compileInfo\<lparr>sourcePaths := sourcePaths compileInfo @ map lexeme params\<rparr>) g) \<and>
   (lexeme command = ''AddConstant'' \<longrightarrow>
      parse_loop tokenList compileInfo g =
        parse_loop (tokenList\<lparr>current := length pre + length (param_list comma params) + 4\<rparr>)
          (compileInfo\<lparr>constants := constants compileInfo @ map lexeme params\<rparr>) g) \<and>
   (lexeme command = ''AddIncludePath'' \<longrightarrow>
      parse_loop tokenList compileInfo g =
        parse_loop (tokenList\<lparr>current := length pre + length (param_list comma params) + 4\<rparr>)
          (compileInfo\<lparr>includePaths := includePaths compileInfo @ map lexeme params\<rparr>) g) \<and>
   (lexeme command = ''AddLibrary'' \<longrightarrow>
      parse_loop tokenList compileInfo g =
        parse_loop (tokenList\<lparr>current := length pre + length (param_list comma params) + 4\<rparr>)
          (compileInfo\<lparr>libraries := libraries compileInfo @ map lexeme params\<rparr>) g) \<and>
   (lexeme command = ''AddObjectFile'' \<longrightarrow>
      parse_loop tokenList compileInfo g =
        parse_loop (tokenList\<lparr>current := length pre + length (param_list comma params) + 4\<rparr>)
          (compileInfo\<lparr>objectFiles := objectFiles compileInfo @ map lexeme params\<rparr>) g) \<and>
   (lexeme command = ''AddCompilerFlag'' \<longrightarrow>
      parse_loop tokenList compileInfo g =
        parse_loop (tokenList\<lparr>current := length pre + length (param_list comma params) + 4\<rparr>)
          (compileInfo\<lparr>compilerFlags := compilerFlags compileInfo @ map lexeme params\<rparr>) g) \<and>
   (lexeme command = ''AddLinkerFlag'' \<longrightarrow>
      parse_loop tokenList compileInfo g =
        parse_loop (tokenList\<lparr>current := length pre + length (param_list comma params) + 4\<rparr>)
          (compileInfo\<lparr>linkerFlags := linkerFlags compileInfo @ map lexeme params\<rparr>) g)"
proof -
  note h = assms(1,2,4,5,6,7,8,9)
  note p = parse_loop_handled [OF assms(1,2,3)]
  show ?thesis
    by (intro conjI impI; rule p)
       (simp_all add: handle_AddFile [OF h] handle_AddSourcePath [OF h] handle_AddConstant [OF h] handle_AddIncludePath [OF h] handle_AddLibrary [OF h] handle_AddObjectFile [OF h] handle_AddCompilerFlag [OF h] handle_AddLinkerFlag [OF h])
qed
section \<open>The claims\<close>

subsection \<open>Unknown commands\<close>

text \<open>
  Claim C1. For the file \<^verbatim>\<open>Foo(bar)\n\<close> the claim expects the parse to complete, with the
  error flag set, the diagnostic of an unknown command, the rest of the line skipped and the
  configuration at its defaults. The code sets the flag and prints the diagnostic, and then
  \<^verbatim>\<open>tokenList.skip_line(command)\<close> raises \<^verbatim>\<open>TypeError\<close>: the parse does not complete, no
  line is skipped and no configuration is returned.
\<close>

theorem C1_unknown_command_raises:
  "tokens (scan_text ''Foo(bar)\<newline>'') =
     [\<lparr>tokenType = STRING, lexeme = ''Foo'', line = 1\<rparr>,
      \<lparr>tokenType = LEFT_PAREN, lexeme = ''('', line = 1\<rparr>,
      \<lparr>tokenType = STRING, lexeme = ''bar'', line = 1\<rparr>,
      \<lparr>tokenType = RIGHT_PAREN, lexeme = '')'', line = 1\<rparr>,
      \<lparr>tokenType = LINE_END, lexeme = [CHR 0x5C, CHR ''n''], line = 1\<rparr>] \<and>
   parse_tokens (scan_text ''Foo(bar)\<newline>'') Globals_init =
     (Inl TypeError,
      \<lparr>hadError = True,
       stderr = [''[1] at -> '' @ [CHR 0x22] @ ''Foo'' @ [CHR 0x22] @ '' Unkown command.'']\<rparr>)"
  by code_simp

subsection \<open>Input that ends inside a command\<close>

text \<open>
  Claim C2. The claim expects every finite token sequence to be parsed to the end, with no
  access to the token list out of bounds. The file \<^verbatim>\<open>AddFile(\<close>, with no line break at its
  end, scans to a command name and a left parenthesis; \<^verbatim>\<open>consume_param\<close> then calls \<^verbatim>\<open>peek\<close>
  at the end of the list, which raises \<^verbatim>\<open>IndexError\<close>, and the parse is aborted.
\<close>

theorem C2_peek_at_end_raises:
  "tokens (scan_text ''AddFile('') =
     [\<lparr>tokenType = STRING, lexeme = ''AddFile'', line = 1\<rparr>,
      \<lparr>tokenType = LEFT_PAREN, lexeme = ''('', line = 1\<rparr>] \<and>
   parse_tokens (scan_text ''AddFile('') Globals_init = (Inl IndexError, Globals_init)"
  by code_simp

subsection \<open>Several malformed lines\<close>

text \<open>
  Claim C3. The claim expects every malformed line of a file to get its own diagnostic, and
  the parse to go on with the line after it. In the file
  \<^verbatim>\<open>SetCompiler\nSetCompiler(msvc)\n\<close> both lines are malformed; the parse ends with one
  diagnostic, for line 1: the token taken for the left parenthesis is the \<^verbatim>\<open>LINE_END\<close> of
  line 1, so \<^verbatim>\<open>skip_line\<close> discards the whole of line 2. In the file
  \<^verbatim>\<open>AddFile()\nAddFile()\n\<close> the second line gets no diagnostic: \<^verbatim>\<open>complex_command\<close> takes the
  global \<^verbatim>\<open>hadError\<close>, set by line 1, for an error already reported on this line.
\<close>

theorem C3_errors_lost:
  "parse_tokens (scan_text ''SetCompiler\<newline>SetCompiler(msvc)\<newline>'') Globals_init =
     (Inr CompileInfo_init,
      \<lparr>hadError = True,
       stderr = [''[1] at -> '' @ [CHR 0x22] @ ''SetCompiler'' @ [CHR 0x22] @
                 '' Expected '' @ [CHR 0x22] @ ''('' @ [CHR 0x22] @ '' after command.'']\<rparr>) \<and>
   parse_tokens (scan_text ''AddFile()\<newline>AddFile()\<newline>'') Globals_init =
     (Inr CompileInfo_init,
      \<lparr>hadError = True,
       stderr = [''[1] at -> '' @ [CHR 0x22] @ ''AddFile'' @ [CHR 0x22] @
                 '' Expected parameters after command.'']\<rparr>)"
  by code_simp

subsection \<open>Simple commands with a legal value\<close>

text \<open>
  Claim C4. A simple command is the five tokens of \<^verbatim>\<open>SetX(value)\<close> and its line end, at the
  cursor, anywhere in a token list. When the value is legal for the field (any value for
  \<^verbatim>\<open>SetProjectName\<close>), parsing from this command is parsing from the token after its line
  end with the field set to the value and the globals as they were: the field holds the
  value and no error is recorded.
\<close>

theorem C4_legal_value_is_set:
  assumes "tokens tokenList = pre @ command # lp # param # rp # le # post"
    and "current tokenList = length pre"
    and "tokenType command = STRING" "tokenType lp = LEFT_PAREN"
    and "tokenType rp = RIGHT_PAREN" "tokenType le = LINE_END"
  shows
  "(lexeme command = ''SetProjectName'' \<longrightarrow>
      parse_loop tokenList compileInfo g =
        parse_loop (tokenList\<lparr>current := length pre + 5\<rparr>)
          (compileInfo\<lparr>projectName := lexeme param\<rparr>) g) \<and>
   (lexeme command = ''SetCompiler'' \<and> lexeme param \<in> {''gcc'', ''cl'', ''clang'', ''clang-cl''} \<longrightarrow>
      parse_loop tokenList compileInfo g =
        parse_loop (tokenList\<lparr>current := length pre + 5\<rparr>)
          (compileInfo\<lparr>compiler := lexeme param\<rparr>) g) \<and>
   (lexeme command = ''SetLanguageVersion'' \<and> lexeme param \<in> {''c89'', ''c99'', ''c11'', ''c17''} \<longrightarrow>
      parse_loop tokenList compileInfo g =
        parse_loop (tokenList\<lparr>current := length pre + 5\<rparr>)
          (compileInfo\<lparr>languageVersion := lexeme param\<rparr>) g) \<and>
   (lexeme command = ''SetTargetArch'' \<and> lexeme param \<in> {''32'', ''64''} \<longrightarrow>
      parse_loop tokenList compileInfo g =
        parse_loop (tokenList\<lparr>current := length pre + 5\<rparr>)
          (compileInfo\<lparr>arch := lexeme param\<rparr>) g) \<and>
   (lexeme command = ''SetOutputType'' \<and> lexeme param \<in> {''shared'', ''object'', ''executable''} \<longrightarrow>
      parse_loop tokenList compileInfo g =
        parse_loop (tokenList\<lparr>current := length pre + 5\<rparr>)
          (compileInfo\<lparr>outputType := lexeme param\<rparr>) g) \<and>
   (lexeme command = ''SetBuildType'' \<and> lexeme param \<in> {''debug'', ''release''} \<longrightarrow>
      parse_loop tokenList compileInfo g =
        parse_loop (tokenList\<lparr>current := length pre + 5\<rparr>)
          (compileInfo\<lparr>buildType := lexeme param\<rparr>) g)"
proof -
  note h = assms(1,2,4,5,6)
  note p = parse_loop_handled [OF assms(1,2,3)]
  show ?thesis
    by (intro conjI impI; (elim conjE)?; rule p)
       (simp_all add: handle_SetProjectName [OF h] handle_SetCompiler [OF h] handle_SetLanguageVersion [OF h] handle_SetTargetArch [OF h] handle_SetOutputType [OF h] handle_SetBuildType [OF h])
qed


theorem C4_legal_value_is_set_witness:
  "tokens (scan_text ''SetCompiler(clang)\<newline>'') =
     [\<lparr>tokenType = STRING, lexeme = ''SetCompiler'', line = 1\<rparr>,
      \<lparr>tokenType = LEFT_PAREN, lexeme = ''('', line = 1\<rparr>,
      \<lparr>tokenType = STRING, lexeme = ''clang'', line = 1\<rparr>,
      \<lparr>tokenType = RIGHT_PAREN, lexeme = '')'', line = 1\<rparr>,
      \<lparr>tokenType = LINE_END, lexeme = [CHR 0x5C, CHR ''n''], line = 1\<rparr>] \<and>
   current (scan_text ''SetCompiler(clang)\<newline>'') = 0 \<and>
   ''clang'' \<in> {''gcc'', ''cl'', ''clang'', ''clang-cl''} \<and>
   parse_tokens (scan_text ''SetCompiler(clang)\<newline>'') Globals_init =
     (Inr (CompileInfo_init\<lparr>compiler := ''clang''\<rparr>), Globals_init)"
proof -
  let ?T = "scan_text ''SetCompiler(clang)\<newline>''"
  have T: "?T = \<lparr>tokens =
     [\<lparr>tokenType = STRING, lexeme = ''SetCompiler'', line = 1\<rparr>,
      \<lparr>tokenType = LEFT_PAREN, lexeme = ''('', line = 1\<rparr>,
      \<lparr>tokenType = STRING, lexeme = ''clang'', line = 1\<rparr>,
      \<lparr>tokenType = RIGHT_PAREN, lexeme = '')'', line = 1\<rparr>,
      \<lparr>tokenType = LINE_END, lexeme = [CHR 0x5C, CHR ''n''], line = 1\<rparr>], current = 0\<rparr>"
    by code_simp
  have step: "parse_loop ?T CompileInfo_init Globals_init =
      parse_loop (?T\<lparr>current := 5\<rparr>) (CompileInfo_init\<lparr>compiler := ''clang''\<rparr>) Globals_init"
    using C4_legal_value_is_set [of ?T "[]"
      "\<lparr>tokenType = STRING, lexeme = ''SetCompiler'', line = 1\<rparr>"
      "\<lparr>tokenType = LEFT_PAREN, lexeme = ''('', line = 1\<rparr>"
      "\<lparr>tokenType = STRING, lexeme = ''clang'', line = 1\<rparr>"
      "\<lparr>tokenType = RIGHT_PAREN, lexeme = '')'', line = 1\<rparr>"
      "\<lparr>tokenType = LINE_END, lexeme = [CHR 0x5C, CHR ''n''], line = 1\<rparr>" "[]"
      CompileInfo_init Globals_init]
    by (simp add: T)
  have fin: "parse_loop (?T\<lparr>current := 5\<rparr>) (CompileInfo_init\<lparr>compiler := ''clang''\<rparr>) Globals_init =
      (Inr (CompileInfo_init\<lparr>compiler := ''clang''\<rparr>), Globals_init)"
    by (rule parse_loop_at_end) (simp add: T)
  show ?thesis
    unfolding parse_tokens_def step fin by (simp add: T)
qed

subsection \<open>Complex commands\<close>

text \<open>
  Claim C5. A complex command is the tokens of \<^verbatim>\<open>AddX(a, b, c)\<close> and its line end, at the
  cursor, anywhere in a token list: one or more \<^verbatim>\<open>STRING\<close> parameters with commas
  between them. Parsing from this command is parsing from the token after its line end
  with the lexemes of the parameters appended to the list field, in their order, and the
  globals as they were: the list grows by the number of parameters, and a second command
  appends to what the first has left. Whenever the parse of any token list returns a
  configuration, each list field of the configuration it started from is a prefix of the
  field it returns: the lists only accumulate.
\<close>

theorem C5_parameters_are_appended:
  "(tokens tokenList = pre @ command # lp # param_list comma params @ rp # le # post \<and>
    current tokenList = length pre \<and> tokenType command = STRING \<and>
    tokenType lp = LEFT_PAREN \<and> tokenType rp = RIGHT_PAREN \<and> tokenType le = LINE_END \<and>
    tokenType comma = COMMA \<and> (\<forall>p \<in> set params. tokenType p = STRING) \<and> params \<noteq> [] \<longrightarrow>
      (lexeme command = ''AddFile'' \<longrightarrow>
         parse_loop tokenList compileInfo g =
           parse_loop (tokenList\<lparr>current := length pre + length (param_list comma params) + 4\<rparr>)
             (compileInfo\<lparr>files := files compileInfo @ map lexeme params\<rparr>) g) \<and>
      (lexeme command = ''AddSourcePath'' \<longrightarrow>
         parse_loop tokenList compileInfo g =
           parse_loop (tokenList\<lparr>current := length pre + length (param_list comma params) + 4\<rparr>)
             (compileInfo\<lparr>sourcePaths := sourcePaths compileInfo @ map lexeme params\<rparr>) g) \<and>
      (lexeme command = ''AddConstant'' \<longrightarrow>
         parse_loop tokenList compileInfo g =
           parse_loop (tokenList\<lparr>current := length pre + length (param_list comma params) + 4\<rparr>)
             (compileInfo\<lparr>constants := constants compileInfo @ map lexeme params\<rparr>) g) \<and>
      (lexeme command = ''AddIncludePath'' \<longrightarrow>
         parse_loop tokenList compileInfo g =
           parse_loop (tokenList\<lparr>current := length pre + length (param_list comma params) + 4\<rparr>)
             (compileInfo\<lparr>includePaths := includePaths compileInfo @ map lexeme params\<rparr>) g) \<and>
      (lexeme command = ''AddLibrary'' \<longrightarrow>
         parse_loop tokenList compileInfo g =
           parse_loop (tokenList\<lparr>current := length pre + length (param_list comma params) + 4\<rparr>)
             (compileInfo\<lparr>libraries := libraries compileInfo @ map lexeme params\<rparr>) g) \<and>
      (lexeme command = ''AddObjectFile'' \<longrightarrow>
         parse_loop tokenList compileInfo g =
           parse_loop (tokenList\<lparr>current := length pre + length (param_list comma params) + 4\<rparr>)
             (compileInfo\<lparr>objectFiles := objectFiles compileInfo @ map lexeme params\<rparr>) g) \<and>
      (lexeme command = ''AddCompilerFlag'' \<longrightarrow>
         parse_loop tokenList compileInfo g =
           parse_loop (tokenList\<lparr>current := length pre + length (param_list comma params) + 4\<rparr>)
             (compileInfo\<lparr>compilerFlags := compilerFlags compileInfo @ map lexeme params\<rparr>) g) \<and>
      (lexeme command = ''AddLinkerFlag'' \<longrightarrow>
         parse_loop tokenList compileInfo g =
           parse_loop (tokenList\<lparr>current := length pre + length (param_list comma params) + 4\<rparr>)
             (compileInfo\<lparr>linkerFlags := linkerFlags compileInfo @ map lexeme params\<rparr>) g)) \<and>
   (parse_loop others start gs = (Inr final, gf) \<longrightarrow>
      accumulated start final)"
proof (intro conjI)
  show "tokens tokenList = pre @ command # lp # param_list comma params @ rp # le # post \<and>
    current tokenList = length pre \<and> tokenType command = STRING \<and>
    tokenType lp = LEFT_PAREN \<and> tokenType rp = RIGHT_PAREN \<and> tokenType le = LINE_END \<and>
    tokenType comma = COMMA \<and> (\<forall>p \<in> set params. tokenType p = STRING) \<and> params \<noteq> [] \<longrightarrow>
      (lexeme command = ''AddFile'' \<longrightarrow>
         parse_loop tokenList compileInfo g =
           parse_loop (tokenList\<lparr>current := length pre + length (param_list comma params) + 4\<rparr>)
             (compileInfo\<lparr>files := files compileInfo @ map lexeme params\<rparr>) g) \<and>
      (lexeme command = ''AddSourcePath'' \<longrightarrow>
         parse_loop tokenList compileInfo g =
           parse_loop (tokenList\<lparr>current := length pre + length (param_list comma params) + 4\<rparr>)
             (compileInfo\<lparr>sourcePaths := sourcePaths compileInfo @ map lexeme params\<rparr>) g) \<and>
      (lexeme command = ''AddConstant'' \<longrightarrow>
         parse_loop tokenList compileInfo g =
           parse_loop (tokenList\<lparr>current := length pre + length (param_list comma params) + 4\<rparr>)
             (compileInfo\<lparr>constants := constants compileInfo @ map lexeme params\<rparr>) g) \<and>
      (lexeme command = ''AddIncludePath'' \<longrightarrow>
         parse_loop tokenList compileInfo g =
           parse_loop (tokenList\<lparr>current := length pre + length (param_list comma params) + 4\<rparr>)
             (compileInfo\<lparr>includePaths := includePaths compileInfo @ map lexeme params\<rparr>) g) \<and>
      (lexeme command = ''AddLibrary'' \<longrightarrow>
         parse_loop tokenList compileInfo g =
           parse_loop (tokenList\<lparr>current := length pre + length (param_list comma params) + 4\<rparr>)
             (compileInfo\<lparr>libraries := libraries compileInfo @ map lexeme params\<rparr>) g) \<and>
      (lexeme command = ''AddObjectFile'' \<longrightarrow>
         parse_loop tokenList compileInfo g =
           parse_loop (tokenList\<lparr>current := length pre + length (param_list comma params) + 4\<rparr>)
             (compileInfo\<lparr>objectFiles := objectFiles compileInfo @ map lexeme params\<rparr>) g) \<and>
      (lexeme command = ''AddCompilerFlag'' \<longrightarrow>
         parse_loop tokenList compileInfo g =
           parse_loop (tokenList\<lparr>current := length pre + length (param_list comma params) + 4\<rparr>)
             (compileInfo\<lparr>compilerFlags := compilerFlags compileInfo @ map lexeme params\<rparr>) g) \<and>
      (lexeme command = ''AddLinkerFlag'' \<longrightarrow>
         parse_loop tokenList compileInfo g =
           parse_loop (tokenList\<lparr>current := length pre + length (param_list comma params) + 4\<rparr>)
             (compileInfo\<lparr>linkerFlags := linkerFlags compileInfo @ map lexeme params\<rparr>) g)"
  proof
    assume a: "tokens tokenList = pre @ command # lp # param_list comma params @ rp # le # post \<and>
    current tokenList = length pre \<and> tokenType command = STRING \<and>
    tokenType lp = LEFT_PAREN \<and> tokenType rp = RIGHT_PAREN \<and> tokenType le = LINE_END \<and>
    tokenType comma = COMMA \<and> (\<forall>p \<in> set params. tokenType p = STRING) \<and> params \<noteq> []"
    then have s: "tokens tokenList = pre @ command # lp # param_list comma params @ rp # le # post"
      "current tokenList = length pre" "tokenType command = STRING"
      "tokenType lp = LEFT_PAREN" "tokenType rp = RIGHT_PAREN" "tokenType le = LINE_END"
      "tokenType comma = COMMA" "\<forall>p \<in> set params. tokenType p = STRING" "params \<noteq> []"
      by blast+
    show "(lexeme command = ''AddFile'' \<longrightarrow>
         parse_loop tokenList compileInfo g =
           parse_loop (tokenList\<lparr>current := length pre + length (param_list comma params) + 4\<rparr>)
             (compileInfo\<lparr>files := files compileInfo @ map lexeme params\<rparr>) g) \<and>
      (lexeme command = ''AddSourcePath'' \<longrightarrow>
         parse_loop tokenList compileInfo g =
           parse_loop (tokenList\<lparr>current := length pre + length (param_list comma params) + 4\<rparr>)
             (compileInfo\<lparr>sourcePaths := sourcePaths compileInfo @ map lexeme params\<rparr>) g) \<and>
      (lexeme command = ''AddConstant'' \<longrightarrow>
         parse_loop tokenList compileInfo g =
           parse_loop (tokenList\<lparr>current := length pre + length (param_list comma params) + 4\<rparr>)
             (compileInfo\<lparr>constants := constants compileInfo @ map lexeme params\<rparr>) g) \<and>
      (lexeme command = ''AddIncludePath'' \<longrightarrow>
         parse_loop tokenList compileInfo g =
           parse_loop (tokenList\<lparr>current := length pre + length (param_list comma params) + 4\<rparr>)
             (compileInfo\<lparr>includePaths := includePaths compileInfo @ map lexeme params\<rparr>) g) \<and>
      (lexeme command = ''AddLibrary'' \<longrightarrow>
         parse_loop tokenList compileInfo g =
           parse_loop (tokenList\<lparr>current := length pre + length (param_list comma params) + 4\<rparr>)
             (compileInfo\<lparr>libraries := libraries compileInfo @ map lexeme params\<rparr>) g) \<and>
      (lexeme command = ''AddObjectFile'' \<longrightarrow>
         parse_loop tokenList compileInfo g =
           parse_loop (tokenList\<lparr>current := length pre + length (param_list comma params) + 4\<rparr>)
             (compileInfo\<lparr>objectFiles := objectFiles compileInfo @ map lexeme params\<rparr>) g) \<and>
      (lexeme command = ''AddCompilerFlag'' \<longrightarrow>
         parse_loop tokenList compileInfo g =
           parse_loop (tokenList\<lparr>current := length pre + length (param_list comma params) + 4\<rparr>)
             (compileInfo\<lparr>compilerFlags := compilerFlags compileInfo @ map lexeme params\<rparr>) g) \<and>
      (lexeme command = ''AddLinkerFlag'' \<longrightarrow>
         parse_loop tokenList compileInfo g =
           parse_loop (tokenList\<lparr>current := length pre + length (param_list comma params) + 4\<rparr>)
             (compileInfo\<lparr>linkerFlags := linkerFlags compileInfo @ map lexeme params\<rparr>) g)"
      by (rule complex_command_step [OF s])
  qed
next
  show "parse_loop others start gs = (Inr final, gf) \<longrightarrow>
      accumulated start final"
    using parse_loop_accumulated by blast
qed

theorem C5_parameters_are_appended_witness:
  "tokens (scan_text ''AddFile(a.c, b.c)\<newline>AddFile(a.c)\<newline>'') =
     [\<lparr>tokenType = STRING, lexeme = ''AddFile'', line = 1\<rparr>,
      \<lparr>tokenType = LEFT_PAREN, lexeme = ''('', line = 1\<rparr>,
      \<lparr>tokenType = STRING, lexeme = ''a.c'', line = 1\<rparr>,
      \<lparr>tokenType = COMMA, lexeme = '','', line = 1\<rparr>,
      \<lparr>tokenType = STRING, lexeme = ''b.c'', line = 1\<rparr>,
      \<lparr>tokenType = RIGHT_PAREN, lexeme = '')'', line = 1\<rparr>,
      \<lparr>tokenType = LINE_END, lexeme = [CHR 0x5C, CHR ''n''], line = 1\<rparr>,
      \<lparr>tokenType = STRING, lexeme = ''AddFile'', line = 2\<rparr>,
      \<lparr>tokenType = LEFT_PAREN, lexeme = ''('', line = 2\<rparr>,
      \<lparr>tokenType = STRING, lexeme = ''a.c'', line = 2\<rparr>,
      \<lparr>tokenType = RIGHT_PAREN, lexeme = '')'', line = 2\<rparr>,
      \<lparr>tokenType = LINE_END, lexeme = [CHR 0x5C, CHR ''n''], line = 2\<rparr>] \<and>
   parse_tokens (scan_text ''AddFile(a.c, b.c)\<newline>AddFile(a.c)\<newline>'') Globals_init =
     (Inr (CompileInfo_init\<lparr>files := [''a.c'', ''b.c'', ''a.c'']\<rparr>), Globals_init) \<and>
   accumulated CompileInfo_init (CompileInfo_init\<lparr>files := [''a.c'', ''b.c'', ''a.c'']\<rparr>)"
proof -
  let ?T = "scan_text ''AddFile(a.c, b.c)\<newline>AddFile(a.c)\<newline>''"
  let ?c1 = "CompileInfo_init\<lparr>files := [''a.c'', ''b.c'']\<rparr>"
  let ?c2 = "CompileInfo_init\<lparr>files := [''a.c'', ''b.c'', ''a.c'']\<rparr>"
  have T: "?T = \<lparr>tokens =
     [\<lparr>tokenType = STRING, lexeme = ''AddFile'', line = 1\<rparr>,
      \<lparr>tokenType = LEFT_PAREN, lexeme = ''('', line = 1\<rparr>,
      \<lparr>tokenType = STRING, lexeme = ''a.c'', line = 1\<rparr>,
      \<lparr>tokenType = COMMA, lexeme = '','', line = 1\<rparr>,
      \<lparr>tokenType = STRING, lexeme = ''b.c'', line = 1\<rparr>,
      \<lparr>tokenType = RIGHT_PAREN, lexeme = '')'', line = 1\<rparr>,
      \<lparr>tokenType = LINE_END, lexeme = [CHR 0x5C, CHR ''n''], line = 1\<rparr>,
      \<lparr>tokenType = STRING, lexeme = ''AddFile'', line = 2\<rparr>,
      \<lparr>tokenType = LEFT_PAREN, lexeme = ''('', line = 2\<rparr>,
      \<lparr>tokenType = STRING, lexeme = ''a.c'', line = 2\<rparr>,
      \<lparr>tokenType = RIGHT_PAREN, lexeme = '')'', line = 2\<rparr>,
      \<lparr>tokenType = LINE_END, lexeme = [CHR 0x5C, CHR ''n''], line = 2\<rparr>], current = 0\<rparr>"
    by code_simp
  note first = C5_parameters_are_appended
    [where tokenList = ?T and pre = "[]"
       and command = "\<lparr>tokenType = STRING, lexeme = ''AddFile'', line = 1\<rparr>"
       and lp = "\<lparr>tokenType = LEFT_PAREN, lexeme = ''('', line = 1\<rparr>"
       and comma = "\<lparr>tokenType = COMMA, lexeme = '','', line = 1\<rparr>"
       and params = "[\<lparr>tokenType = STRING, lexeme = ''a.c'', line = 1\<rparr>,
                      \<lparr>tokenType = STRING, lexeme = ''b.c'', line = 1\<rparr>]"
       and rp = "\<lparr>tokenType = RIGHT_PAREN, lexeme = '')'', line = 1\<rparr>"
       and le = "\<lparr>tokenType = LINE_END, lexeme = [CHR 0x5C, CHR ''n''], line = 1\<rparr>"
       and post = "[\<lparr>tokenType = STRING, lexeme = ''AddFile'', line = 2\<rparr>,
        \<lparr>tokenType = LEFT_PAREN, lexeme = ''('', line = 2\<rparr>,
        \<lparr>tokenType = STRING, lexeme = ''a.c'', line = 2\<rparr>,
        \<lparr>tokenType = RIGHT_PAREN, lexeme = '')'', line = 2\<rparr>,
        \<lparr>tokenType = LINE_END, lexeme = [CHR 0x5C, CHR ''n''], line = 2\<rparr>]"
       and compileInfo = CompileInfo_init and g = Globals_init
       and others = ?T and start = CompileInfo_init and gs = Globals_init
       and final = ?c2 and gf = Globals_init]
  note second = C5_parameters_are_appended
    [where tokenList = "?T\<lparr>current := 7\<rparr>"
       and pre = "[\<lparr>tokenType = STRING, lexeme = ''AddFile'', line = 1\<rparr>,
        \<lparr>tokenType = LEFT_PAREN, lexeme = ''('', line = 1\<rparr>,
        \<lparr>tokenType = STRING, lexeme = ''a.c'', line = 1\<rparr>,
        \<lparr>tokenType = COMMA, lexeme = '','', line = 1\<rparr>,
        \<lparr>tokenType = STRING, lexeme = ''b.c'', line = 1\<rparr>,
        \<lparr>tokenType = RIGHT_PAREN, lexeme = '')'', line = 1\<rparr>,
        \<lparr>tokenType = LINE_END, lexeme = [CHR 0x5C, CHR ''n''], line = 1\<rparr>]"
       and command = "\<lparr>tokenType = STRING, lexeme = ''AddFile'', line = 2\<rparr>"
       and lp = "\<lparr>tokenType = LEFT_PAREN, lexeme = ''('', line = 2\<rparr>"
       and comma = "\<lparr>tokenType = COMMA, lexeme = '','', line = 1\<rparr>"
       and params = "[\<lparr>tokenType = STRING, lexeme = ''a.c'', line = 2\<rparr>]"
       and rp = "\<lparr>tokenType = RIGHT_PAREN, lexeme = '')'', line = 2\<rparr>"
       and le = "\<lparr>tokenType = LINE_END, lexeme = [CHR 0x5C, CHR ''n''], line = 2\<rparr>"
       and post = "[]"
       and compileInfo = ?c1 and g = Globals_init]
  have s1: "parse_loop ?T CompileInfo_init Globals_init = parse_loop (?T\<lparr>current := 7\<rparr>) ?c1 Globals_init"
    using first [THEN conjunct1] by (simp add: T CompileInfo_init_def)
  have s2: "parse_loop (?T\<lparr>current := 7\<rparr>) ?c1 Globals_init =
      parse_loop (?T\<lparr>current := 12\<rparr>) ?c2 Globals_init"
    using second [THEN conjunct1] by (simp add: T CompileInfo_init_def)
  have fin: "parse_loop (?T\<lparr>current := 12\<rparr>) ?c2 Globals_init = (Inr ?c2, Globals_init)"
    by (rule parse_loop_at_end) (simp add: T)
  have res: "parse_loop ?T CompileInfo_init Globals_init = (Inr ?c2, Globals_init)"
    unfolding s1 s2 fin ..
  then have "accumulated CompileInfo_init ?c2"
    using first [THEN conjunct2] by blast
  with res show ?thesis
    unfolding parse_tokens_def by (simp add: T)
qed

subsection \<open>Simple commands with a value that is not legal\<close>

text \<open>
  Claim C6. A simple command on an enumerated field whose value is not in the legal set
  leaves the configuration as it was: parsing from this command is parsing from the token
  after its line end with the same configuration and the diagnostic of the invalid value
  printed, and the error flag is set when the parse ends, however it ends. Hence the
  enumerated fields hold legal values whenever the parse of any token list returns a
  configuration, from any legal configuration and so from the defaults of
  \<^verbatim>\<open>parse_tokens\<close>.
\<close>

theorem C6_illegal_value_keeps_field:
  "(tokens tokenList = pre @ command # lp # param # rp # le # post \<and>
    current tokenList = length pre \<and> tokenType command = STRING \<and>
    tokenType lp = LEFT_PAREN \<and> tokenType rp = RIGHT_PAREN \<and> tokenType le = LINE_END \<longrightarrow>
      (lexeme command = ''SetCompiler'' \<and> lexeme param \<notin> {''gcc'', ''cl'', ''clang'', ''clang-cl''} \<longrightarrow>
         parse_loop tokenList compileInfo g =
           parse_loop (tokenList\<lparr>current := length pre + 5\<rparr>) compileInfo
             (print_error (at_message param ''Invalid compiler.'') g) \<and>
         hadError (snd (parse_loop tokenList compileInfo g))) \<and>
      (lexeme command = ''SetLanguageVersion'' \<and> lexeme param \<notin> {''c89'', ''c99'', ''c11'', ''c17''} \<longrightarrow>
         parse_loop tokenList compileInfo g =
           parse_loop (tokenList\<lparr>current := length pre + 5\<rparr>) compileInfo
             (print_error (at_message param ''Invalid language version.'') g) \<and>
         hadError (snd (parse_loop tokenList compileInfo g))) \<and>
      (lexeme command = ''SetTargetArch'' \<and> lexeme param \<notin> {''32'', ''64''} \<longrightarrow>
         parse_loop tokenList compileInfo g =
           parse_loop (tokenList\<lparr>current := length pre + 5\<rparr>) compileInfo
             (print_error (at_message param ''Invalid architeture.'') g) \<and>
         hadError (snd (parse_loop tokenList compileInfo g))) \<and>
      (lexeme command = ''SetOutputType'' \<and> lexeme param \<notin> {''shared'', ''object'', ''executable''} \<longrightarrow>
         parse_loop tokenList compileInfo g =
           parse_loop (tokenList\<lparr>current := length pre + 5\<rparr>) compileInfo
             (print_error (at_message param ''Invalid output type.'') g) \<and>
         hadError (snd (parse_loop tokenList compileInfo g))) \<and>
      (lexeme command = ''SetBuildType'' \<and> lexeme param \<notin> {''debug'', ''release''} \<longrightarrow>
         parse_loop tokenList compileInfo g =
           parse_loop (tokenList\<lparr>current := length pre + 5\<rparr>) compileInfo
             (print_error (at_message param ''Invalid build type.'') g) \<and>
         hadError (snd (parse_loop tokenList compileInfo g)))) \<and>
   (legal_config compileInfo0 \<and> parse_loop tokenList0 compileInfo0 g0 = (Inr compileInfo1, g1) \<longrightarrow>
      legal_config compileInfo1) \<and>
   (parse_tokens tokenList0 g0 = (Inr compileInfo1, g1) \<longrightarrow> legal_config compileInfo1)"
proof (intro conjI)
  show "tokens tokenList = pre @ command # lp # param # rp # le # post \<and>
    current tokenList = length pre \<and> tokenType command = STRING \<and>
    tokenType lp = LEFT_PAREN \<and> tokenType rp = RIGHT_PAREN \<and> tokenType le = LINE_END \<longrightarrow>
      (lexeme command = ''SetCompiler'' \<and> lexeme param \<notin> {''gcc'', ''cl'', ''clang'', ''clang-cl''} \<longrightarrow>
         parse_loop tokenList compileInfo g =
           parse_loop (tokenList\<lparr>current := length pre + 5\<rparr>) compileInfo
             (print_error (at_message param ''Invalid compiler.'') g) \<and>
         hadError (snd (parse_loop tokenList compileInfo g))) \<and>
      (lexeme command = ''SetLanguageVersion'' \<and> lexeme param \<notin> {''c89'', ''c99'', ''c11'', ''c17''} \<longrightarrow>
         parse_loop tokenList compileInfo g =
           parse_loop (tokenList\<lparr>current := length pre + 5\<rparr>) compileInfo
             (print_error (at_message param ''Invalid language version.'') g) \<and>
         hadError (snd (parse_loop tokenList compileInfo g))) \<and>
      (lexeme command = ''SetTargetArch'' \<and> lexeme param \<notin> {''32'', ''64''} \<longrightarrow>
         parse_loop tokenList compileInfo g =
           parse_loop (tokenList\<lparr>current := length pre + 5\<rparr>) compileInfo
             (print_error (at_message param ''Invalid architeture.'') g) \<and>
         hadError (snd (parse_loop tokenList compileInfo g))) \<and>
      (lexeme command = ''SetOutputType'' \<and> lexeme param \<notin> {''shared'', ''object'', ''executable''} \<longrightarrow>
         parse_loop tokenList compileInfo g =
           parse_loop (tokenList\<lparr>current := length pre + 5\<rparr>) compileInfo
             (print_error (at_message param ''Invalid output type.'') g) \<and>
         hadError (snd (parse_loop tokenList compileInfo g))) \<and>
      (lexeme command = ''SetBuildType'' \<and> lexeme param \<notin> {''debug'', ''release''} \<longrightarrow>
         parse_loop tokenList compileInfo g =
           parse_loop (tokenList\<lparr>current := length pre + 5\<rparr>) compileInfo
             (print_error (at_message param ''Invalid build type.'') g) \<and>
         hadError (snd (parse_loop tokenList compileInfo g)))"
  proof
    assume a: "tokens tokenList = pre @ command # lp # param # rp # le # post \<and>
    current tokenList = length pre \<and> tokenType command = STRING \<and>
    tokenType lp = LEFT_PAREN \<and> tokenType rp = RIGHT_PAREN \<and> tokenType le = LINE_END"
    then have s: "tokens tokenList = pre @ command # lp # param # rp # le # post"
      "current tokenList = length pre" "tokenType command = STRING"
      "tokenType lp = LEFT_PAREN" "tokenType rp = RIGHT_PAREN" "tokenType le = LINE_END"
      by simp_all
    have flag: "\<And>msg. hadError (snd (parse_loop (tokenList\<lparr>current := length pre + 5\<rparr>)
        compileInfo (print_error msg g)))"
      by (rule parse_loop_hadError [OF print_error_hadError])
    show "(lexeme command = ''SetCompiler'' \<and> lexeme param \<notin> {''gcc'', ''cl'', ''clang'', ''clang-cl''} \<longrightarrow>
         parse_loop tokenList compileInfo g =
           parse_loop (tokenList\<lparr>current := length pre + 5\<rparr>) compileInfo
             (print_error (at_message param ''Invalid compiler.'') g) \<and>
         hadError (snd (parse_loop tokenList compileInfo g))) \<and>
      (lexeme command = ''SetLanguageVersion'' \<and> lexeme param \<notin> {''c89'', ''c99'', ''c11'', ''c17''} \<longrightarrow>
         parse_loop tokenList compileInfo g =
           parse_loop (tokenList\<lparr>current := length pre + 5\<rparr>) compileInfo
             (print_error (at_message param ''Invalid language version.'') g) \<and>
         hadError (snd (parse_loop tokenList compileInfo g))) \<and>
      (lexeme command = ''SetTargetArch'' \<and> lexeme param \<notin> {''32'', ''64''} \<longrightarrow>
         parse_loop tokenList compileInfo g =
           parse_loop (tokenList\<lparr>current := length pre + 5\<rparr>) compileInfo
             (print_error (at_message param ''Invalid architeture.'') g) \<and>
         hadError (snd (parse_loop tokenList compileInfo g))) \<and>
      (lexeme command = ''SetOutputType'' \<and> lexeme param \<notin> {''shared'', ''object'', ''executable''} \<longrightarrow>
         parse_loop tokenList compileInfo g =
           parse_loop (tokenList\<lparr>current := length pre + 5\<rparr>) compileInfo
             (print_error (at_message param ''Invalid output type.'') g) \<and>
         hadError (snd (parse_loop tokenList compileInfo g))) \<and>
      (lexeme command = ''SetBuildType'' \<and> lexeme param \<notin> {''debug'', ''release''} \<longrightarrow>
         parse_loop tokenList compileInfo g =
           parse_loop (tokenList\<lparr>current := length pre + 5\<rparr>) compileInfo
             (print_error (at_message param ''Invalid build type.'') g) \<and>
         hadError (snd (parse_loop tokenList compileInfo g)))"
      using illegal_value_step [OF s, of compileInfo g] flag by simp
  qed
next
  show "legal_config compileInfo0 \<and> parse_loop tokenList0 compileInfo0 g0 = (Inr compileInfo1, g1) \<longrightarrow>
      legal_config compileInfo1"
    using parse_loop_legal by blast
next
  show "parse_tokens tokenList0 g0 = (Inr compileInfo1, g1) \<longrightarrow> legal_config compileInfo1"
    unfolding parse_tokens_def using parse_loop_legal [OF legal_config_init] by blast
qed

theorem C6_illegal_value_keeps_field_witness:
  "tokens (scan_text ''SetCompiler(msvc)\<newline>'') =
     [\<lparr>tokenType = STRING, lexeme = ''SetCompiler'', line = 1\<rparr>,
      \<lparr>tokenType = LEFT_PAREN, lexeme = ''('', line = 1\<rparr>,
      \<lparr>tokenType = STRING, lexeme = ''msvc'', line = 1\<rparr>,
      \<lparr>tokenType = RIGHT_PAREN, lexeme = '')'', line = 1\<rparr>,
      \<lparr>tokenType = LINE_END, lexeme = [CHR 0x5C, CHR ''n''], line = 1\<rparr>] \<and>
   current (scan_text ''SetCompiler(msvc)\<newline>'') = 0 \<and>
   ''msvc'' \<notin> {''gcc'', ''cl'', ''clang'', ''clang-cl''} \<and>
   parse_tokens (scan_text ''SetCompiler(msvc)\<newline>'') Globals_init =
     (Inr CompileInfo_init, print_error (''[1] at -> '' @ [CHR 0x22] @ ''msvc'' @ [CHR 0x22] @ '' Invalid compiler.'') Globals_init) \<and>
   hadError (snd (parse_tokens (scan_text ''SetCompiler(msvc)\<newline>'') Globals_init)) \<and>
   legal_config CompileInfo_init"
proof -
  let ?T = "scan_text ''SetCompiler(msvc)\<newline>''"
  let ?g = "print_error (''[1] at -> '' @ [CHR 0x22] @ ''msvc'' @ [CHR 0x22] @ '' Invalid compiler.'') Globals_init"
  have T: "?T = \<lparr>tokens =
     [\<lparr>tokenType = STRING, lexeme = ''SetCompiler'', line = 1\<rparr>,
      \<lparr>tokenType = LEFT_PAREN, lexeme = ''('', line = 1\<rparr>,
      \<lparr>tokenType = STRING, lexeme = ''msvc'', line = 1\<rparr>,
      \<lparr>tokenType = RIGHT_PAREN, lexeme = '')'', line = 1\<rparr>,
      \<lparr>tokenType = LINE_END, lexeme = [CHR 0x5C, CHR ''n''], line = 1\<rparr>], current = 0\<rparr>"
    by code_simp
  have m: "at_message \<lparr>tokenType = STRING, lexeme = ''msvc'', line = 1\<rparr> ''Invalid compiler.'' =
      ''[1] at -> '' @ [CHR 0x22] @ ''msvc'' @ [CHR 0x22] @ '' Invalid compiler.''"
    by code_simp
  then have m': "at_message \<lparr>tokenType = STRING, lexeme = ''msvc'', line = Suc 0\<rparr> ''Invalid compiler.'' =
      ''[1] at -> '' @ [CHR 0x22] @ ''msvc'' @ [CHR 0x22] @ '' Invalid compiler.''"
    by simp
  have fin: "parse_loop (?T\<lparr>current := 5\<rparr>) CompileInfo_init ?g = (Inr CompileInfo_init, ?g)"
    by (rule parse_loop_at_end) (simp add: T)
  note c6 = C6_illegal_value_keeps_field [of ?T "[]"
      "\<lparr>tokenType = STRING, lexeme = ''SetCompiler'', line = 1\<rparr>"
      "\<lparr>tokenType = LEFT_PAREN, lexeme = ''('', line = 1\<rparr>"
      "\<lparr>tokenType = STRING, lexeme = ''msvc'', line = 1\<rparr>"
      "\<lparr>tokenType = RIGHT_PAREN, lexeme = '')'', line = 1\<rparr>"
      "\<lparr>tokenType = LINE_END, lexeme = [CHR 0x5C, CHR ''n''], line = 1\<rparr>" "[]"
      CompileInfo_init Globals_init CompileInfo_init ?T Globals_init CompileInfo_init ?g]
  have shape: "tokens ?T = [] @ \<lparr>tokenType = STRING, lexeme = ''SetCompiler'', line = 1\<rparr> #
      \<lparr>tokenType = LEFT_PAREN, lexeme = ''('', line = 1\<rparr> #
      \<lparr>tokenType = STRING, lexeme = ''msvc'', line = 1\<rparr> #
      \<lparr>tokenType = RIGHT_PAREN, lexeme = '')'', line = 1\<rparr> #
      \<lparr>tokenType = LINE_END, lexeme = [CHR 0x5C, CHR ''n''], line = 1\<rparr> # [] \<and>
    current ?T = length ([] :: Token list) \<and>
    tokenType \<lparr>tokenType = STRING, lexeme = ''SetCompiler'', line = 1\<rparr> = STRING \<and>
    tokenType \<lparr>tokenType = LEFT_PAREN, lexeme = ''('', line = 1\<rparr> = LEFT_PAREN \<and>
    tokenType \<lparr>tokenType = RIGHT_PAREN, lexeme = '')'', line = 1\<rparr> = RIGHT_PAREN \<and>
    tokenType \<lparr>tokenType = LINE_END, lexeme = [CHR 0x5C, CHR ''n''], line = 1\<rparr> = LINE_END"
    by (simp add: T)
  have ill: "lexeme \<lparr>tokenType = STRING, lexeme = ''SetCompiler'', line = 1\<rparr> = ''SetCompiler'' \<and>
    lexeme \<lparr>tokenType = STRING, lexeme = ''msvc'', line = 1\<rparr> \<notin> {''gcc'', ''cl'', ''clang'', ''clang-cl''}"
    by simp
  note r = c6 [THEN conjunct1, THEN mp, OF shape, THEN conjunct1, THEN mp, OF ill]
  have step: "parse_loop ?T CompileInfo_init Globals_init =
        parse_loop (?T\<lparr>current := 5\<rparr>) CompileInfo_init ?g"
    using r [THEN conjunct1] by (simp add: m m')
  then have res: "parse_tokens ?T Globals_init = (Inr CompileInfo_init, ?g)"
    unfolding parse_tokens_def using fin by simp
  have flag: "hadError (snd (parse_tokens ?T Globals_init))"
    unfolding parse_tokens_def by (rule r [THEN conjunct2])
  have "legal_config CompileInfo_init"
    using c6 [THEN conjunct2, THEN conjunct2] res by blast
  with flag res show ?thesis
    by (simp add: T)
qed

subsection \<open>Blank lines and lines of blanks\<close>

text \<open>
  Claim C7, as stated: wholly blank lines and lines with only whitespace before the line
  terminator have no effect on parsing, and no error is recorded for them. This fails for
  a line of blanks: the file of the two lines \<^verbatim>\<open>"  \n"\<close> and \<^verbatim>\<open>"SetBuildType(debug)\n"\<close> is
  parsed with the error flag set and the diagnostic that commands must begin with a
  string, for line 1. The command of line 2 is applied.
\<close>

theorem C7_whitespace_line_sets_error:
  "parse_tokens (scan_text ''  \<newline>SetBuildType(debug)\<newline>'') Globals_init =
     (Inr (CompileInfo_init\<lparr>buildType := ''debug''\<rparr>),
      \<lparr>hadError = True,
       stderr = [''[1] at -> '' @ [CHR 0x22, CHR 0x5C, CHR ''n'', CHR 0x22] @
                 '' Commands must begin with a string.'']\<rparr>)"
  by code_simp


text \<open>
  Claim C7, amended. A line that is only a line terminator yields no token, not even
  \<^verbatim>\<open>LINE_END\<close>. A line of one or more blanks (space, tab, NUL) before its line terminator
  yields exactly one token, a \<^verbatim>\<open>LINE_END\<close>. At a \<^verbatim>\<open>LINE_END\<close> token where a command is
  expected, the parser reports that commands must begin with a string, which sets the
  error flag, and goes on with the token after it and the configuration it had: the
  commands that follow are parsed as they would be otherwise.
\<close>

theorem C7_blank_and_whitespace_lines:
  "scan_lines index ([CHR 0x0A] # lns) tokenList = scan_lines (index + 1) lns tokenList \<and>
   (ws \<noteq> [] \<and> set ws \<subseteq> {CHR '' '', CHR 0x09, CHR 0x00} \<longrightarrow>
      scan_lines index ((ws @ [CHR 0x0A]) # lns) tokenList =
        scan_lines (index + 1) lns (add tokenList LINE_END [CHR 0x5C, CHR ''n''] (index + 1))) \<and>
   (current parsed < length (tokens parsed) \<and>
    tokenType (tokens parsed ! current parsed) = LINE_END \<longrightarrow>
      parse_loop parsed compileInfo g =
        parse_loop (parsed\<lparr>current := Suc (current parsed)\<rparr>) compileInfo
          (print_error (at_message (tokens parsed ! current parsed)
             ''Commands must begin with a string.'') g))"
proof (intro conjI impI)
  show "scan_lines index ([CHR 0x0A] # lns) tokenList = scan_lines (index + 1) lns tokenList"
    by simp
next
  assume a: "ws \<noteq> [] \<and> set ws \<subseteq> {CHR '' '', CHR 0x09, CHR 0x00}"
  then have "hd (ws @ [CHR 0x0A]) \<in> {CHR '' '', CHR 0x09, CHR 0x00}"
    by (cases ws) auto
  then have "hd (ws @ [CHR 0x0A]) \<noteq> CHR 0x0A" by auto
  then show "scan_lines index ((ws @ [CHR 0x0A]) # lns) tokenList =
        scan_lines (index + 1) lns (add tokenList LINE_END [CHR 0x5C, CHR ''n''] (index + 1))"
    using a by (simp add: scan_loop_blank_line)
next
  assume a: "current parsed < length (tokens parsed) \<and>
    tokenType (tokens parsed ! current parsed) = LINE_END"
  then show "parse_loop parsed compileInfo g =
        parse_loop (parsed\<lparr>current := Suc (current parsed)\<rparr>) compileInfo
          (print_error (at_message (tokens parsed ! current parsed)
             ''Commands must begin with a string.'') g)"
    by (simp add: parse_loop_at_other skip_line_at_LINE_END)
qed


theorem C7_blank_and_whitespace_lines_witness:
  "scan_lines 0 [''  \<newline>''] TokenList_init =
     add TokenList_init LINE_END [CHR 0x5C, CHR ''n''] 1 \<and>
   parse_loop (add TokenList_init LINE_END [CHR 0x5C, CHR ''n''] 1) CompileInfo_init Globals_init =
     (Inr CompileInfo_init,
      print_error (''[1] at -> '' @ [CHR 0x22, CHR 0x5C, CHR ''n'', CHR 0x22] @
                   '' Commands must begin with a string.'') Globals_init)"
proof -
  have ws: "''  '' \<noteq> [] \<and> set ''  '' \<subseteq> {CHR '' '', CHR 0x09, CHR 0x00}"
    by simp
  have le: "current (add TokenList_init LINE_END [CHR 0x5C, CHR ''n''] 1) <
              length (tokens (add TokenList_init LINE_END [CHR 0x5C, CHR ''n''] 1)) \<and>
            tokenType (tokens (add TokenList_init LINE_END [CHR 0x5C, CHR ''n''] 1) !
              current (add TokenList_init LINE_END [CHR 0x5C, CHR ''n''] 1)) = LINE_END"
    by (simp add: add_def TokenList_init_def)
  have m: "at_message (tokens (add TokenList_init LINE_END [CHR 0x5C, CHR ''n''] 1) !
              current (add TokenList_init LINE_END [CHR 0x5C, CHR ''n''] 1))
             ''Commands must begin with a string.'' =
           ''[1] at -> '' @ [CHR 0x22, CHR 0x5C, CHR ''n'', CHR 0x22] @
             '' Commands must begin with a string.''"
    by code_simp
  have e: "parse_loop
             ((add TokenList_init LINE_END [CHR 0x5C, CHR ''n''] 1)\<lparr>current :=
                Suc (current (add TokenList_init LINE_END [CHR 0x5C, CHR ''n''] 1))\<rparr>)
             CompileInfo_init
             (print_error (''[1] at -> '' @ [CHR 0x22, CHR 0x5C, CHR ''n'', CHR 0x22] @
                   '' Commands must begin with a string.'') Globals_init) =
           (Inr CompileInfo_init,
            print_error (''[1] at -> '' @ [CHR 0x22, CHR 0x5C, CHR ''n'', CHR 0x22] @
                   '' Commands must begin with a string.'') Globals_init)"
    by (rule parse_loop_at_end) (simp add: add_def TokenList_init_def)
  show ?thesis
    using C7_blank_and_whitespace_lines
      [of 0 "[]" TokenList_init "''  ''" "add TokenList_init LINE_END [CHR 0x5C, CHR ''n''] 1"
          CompileInfo_init Globals_init] ws le
    unfolding m e by simp
qed

subsection \<open>The lexeme of a \<^verbatim>\<open>STRING\<close> token\<close>





subsection \<open>The parameter of a simple command\<close>

text \<open>
  Claim C9. \<^verbatim>\<open>simple_command\<close> takes the token after the left parenthesis as the parameter
  whatever its kind: with a right parenthesis and a line end after it, the token is
  returned, no diagnostic is printed and the cursor is after the line end. So the file
  \<^verbatim>\<open>SetProjectName(,)\<close> sets the project name to a comma and records no error.
\<close>

theorem C9_parameter_of_any_kind:
  "simple_command
     \<lparr>tokens = pre @ command # \<lparr>tokenType = LEFT_PAREN, lexeme = lx1, line = n1\<rparr> # param #
        \<lparr>tokenType = RIGHT_PAREN, lexeme = lx2, line = n2\<rparr> #
        \<lparr>tokenType = LINE_END, lexeme = lx3, line = n3\<rparr> # post,
      current = Suc (length pre)\<rparr> command g =
     (Some param,
      \<lparr>tokens = pre @ command # \<lparr>tokenType = LEFT_PAREN, lexeme = lx1, line = n1\<rparr> # param #
        \<lparr>tokenType = RIGHT_PAREN, lexeme = lx2, line = n2\<rparr> #
        \<lparr>tokenType = LINE_END, lexeme = lx3, line = n3\<rparr> # post,
      current = length pre + 5\<rparr>, g) \<and>
   tokens (scan_text ''SetProjectName(,)\<newline>'') =
     [\<lparr>tokenType = STRING, lexeme = ''SetProjectName'', line = 1\<rparr>,
      \<lparr>tokenType = LEFT_PAREN, lexeme = ''('', line = 1\<rparr>,
      \<lparr>tokenType = COMMA, lexeme = '','', line = 1\<rparr>,
      \<lparr>tokenType = RIGHT_PAREN, lexeme = '')'', line = 1\<rparr>,
      \<lparr>tokenType = LINE_END, lexeme = [CHR 0x5C, CHR ''n''], line = 1\<rparr>] \<and>
   parse_tokens (scan_text ''SetProjectName(,)\<newline>'') Globals_init =
     (Inr (CompileInfo_init\<lparr>projectName := '',''\<rparr>), Globals_init)"
proof (intro conjI)
  show "simple_command
     \<lparr>tokens = pre @ command # \<lparr>tokenType = LEFT_PAREN, lexeme = lx1, line = n1\<rparr> # param #
        \<lparr>tokenType = RIGHT_PAREN, lexeme = lx2, line = n2\<rparr> #
        \<lparr>tokenType = LINE_END, lexeme = lx3, line = n3\<rparr> # post,
      current = Suc (length pre)\<rparr> command g =
     (Some param,
      \<lparr>tokens = pre @ command # \<lparr>tokenType = LEFT_PAREN, lexeme = lx1, line = n1\<rparr> # param #
        \<lparr>tokenType = RIGHT_PAREN, lexeme = lx2, line = n2\<rparr> #
        \<lparr>tokenType = LINE_END, lexeme = lx3, line = n3\<rparr> # post,
      current = length pre + 5\<rparr>, g)"
    using simple_command_accepts
      [where tokenList = "\<lparr>tokens = pre @ command #
            \<lparr>tokenType = LEFT_PAREN, lexeme = lx1, line = n1\<rparr> # param #
            \<lparr>tokenType = RIGHT_PAREN, lexeme = lx2, line = n2\<rparr> #
            \<lparr>tokenType = LINE_END, lexeme = lx3, line = n3\<rparr> # post,
          current = Suc (length pre)\<rparr>"
        and pre = pre and command = command
        and lp = "\<lparr>tokenType = LEFT_PAREN, lexeme = lx1, line = n1\<rparr>" and param = param
        and rp = "\<lparr>tokenType = RIGHT_PAREN, lexeme = lx2, line = n2\<rparr>"
        and le = "\<lparr>tokenType = LINE_END, lexeme = lx3, line = n3\<rparr>"
        and post = post and g = g]
    by simp
qed code_simp+

subsection \<open>A line that begins with punctuation\<close>

text \<open>
  Claim C10. For a line whose first character is a parenthesis or a comma, the scanner
  emits the token of that character twice: the first iteration leaves \<^verbatim>\<open>tokenStart\<close> at 0,
  the second iteration reads the character again, and the scan goes on at position 1.
  Such a line is not blank, so \<^verbatim>\<open>scan_file\<close> does scan it. The tokens of the scan are
  those it had, the two identical tokens, the tokens of the rest of the line and those of
  the lines after it. The two files at the end are scanned in full.
\<close>

theorem C10_first_punctuation_scanned_twice:
  "tokens (scan_lines index ((CHR ''('' # rest) # lns) tokenList) =
     tokens tokenList @
     [\<lparr>tokenType = LEFT_PAREN, lexeme = ''('', line = index + 1\<rparr>,
      \<lparr>tokenType = LEFT_PAREN, lexeme = ''('', line = index + 1\<rparr>] @
     tokens (scan_loop (CHR ''('' # rest) index 1 2 TokenList_init) @
     tokens (scan_lines (index + 1) lns TokenList_init) \<and>
   tokens (scan_lines index ((CHR '')'' # rest) # lns) tokenList) =
     tokens tokenList @
     [\<lparr>tokenType = RIGHT_PAREN, lexeme = '')'', line = index + 1\<rparr>,
      \<lparr>tokenType = RIGHT_PAREN, lexeme = '')'', line = index + 1\<rparr>] @
     tokens (scan_loop (CHR '')'' # rest) index 1 2 TokenList_init) @
     tokens (scan_lines (index + 1) lns TokenList_init) \<and>
   tokens (scan_lines index ((CHR '','' # rest) # lns) tokenList) =
     tokens tokenList @
     [\<lparr>tokenType = COMMA, lexeme = '','', line = index + 1\<rparr>,
      \<lparr>tokenType = COMMA, lexeme = '','', line = index + 1\<rparr>] @
     tokens (scan_loop (CHR '','' # rest) index 1 2 TokenList_init) @
     tokens (scan_lines (index + 1) lns TokenList_init) \<and>
   tokens (scan_text ''(x\<newline>'') =
     [\<lparr>tokenType = LEFT_PAREN, lexeme = ''('', line = 1\<rparr>,
      \<lparr>tokenType = LEFT_PAREN, lexeme = ''('', line = 1\<rparr>,
      \<lparr>tokenType = STRING, lexeme = ''x'', line = 1\<rparr>,
      \<lparr>tokenType = LINE_END, lexeme = [CHR 0x5C, CHR ''n''], line = 1\<rparr>] \<and>
   tokens (scan_text ''a\<newline>)\<newline>, b'') =
     [\<lparr>tokenType = STRING, lexeme = ''a'', line = 1\<rparr>,
      \<lparr>tokenType = LINE_END, lexeme = [CHR 0x5C, CHR ''n''], line = 1\<rparr>,
      \<lparr>tokenType = RIGHT_PAREN, lexeme = '')'', line = 2\<rparr>,
      \<lparr>tokenType = RIGHT_PAREN, lexeme = '')'', line = 2\<rparr>,
      \<lparr>tokenType = LINE_END, lexeme = [CHR 0x5C, CHR ''n''], line = 2\<rparr>,
      \<lparr>tokenType = COMMA, lexeme = '','', line = 3\<rparr>,
      \<lparr>tokenType = COMMA, lexeme = '','', line = 3\<rparr>,
      \<lparr>tokenType = STRING, lexeme = ''b'', line = 3\<rparr>]"
proof (intro conjI)
  show "tokens (scan_lines index ((CHR ''('' # rest) # lns) tokenList) =
     tokens tokenList @
     [\<lparr>tokenType = LEFT_PAREN, lexeme = ''('', line = index + 1\<rparr>,
      \<lparr>tokenType = LEFT_PAREN, lexeme = ''('', line = index + 1\<rparr>] @
     tokens (scan_loop (CHR ''('' # rest) index 1 2 TokenList_init) @
     tokens (scan_lines (index + 1) lns TokenList_init)"
    unfolding first_punctuation_step
    by (subst scan_lines_appends, subst scan_loop_appends) (simp add: add_tokens)
  show "tokens (scan_lines index ((CHR '')'' # rest) # lns) tokenList) =
     tokens tokenList @
     [\<lparr>tokenType = RIGHT_PAREN, lexeme = '')'', line = index + 1\<rparr>,
      \<lparr>tokenType = RIGHT_PAREN, lexeme = '')'', line = index + 1\<rparr>] @
     tokens (scan_loop (CHR '')'' # rest) index 1 2 TokenList_init) @
     tokens (scan_lines (index + 1) lns TokenList_init)"
    unfolding first_punctuation_step
    by (subst scan_lines_appends, subst scan_loop_appends) (simp add: add_tokens)
  show "tokens (scan_lines index ((CHR '','' # rest) # lns) tokenList) =
     tokens tokenList @
     [\<lparr>tokenType = COMMA, lexeme = '','', line = index + 1\<rparr>,
      \<lparr>tokenType = COMMA, lexeme = '','', line = index + 1\<rparr>] @
     tokens (scan_loop (CHR '','' # rest) index 1 2 TokenList_init) @
     tokens (scan_lines (index + 1) lns TokenList_init)"
    unfolding first_punctuation_step
    by (subst scan_lines_appends, subst scan_loop_appends) (simp add: add_tokens)
qed code_simp+

end
